theory Spec2Isabelle
  imports Main "HOL-Library.Word"
begin

section \<open>zpickle: the compressed container and its one-shot and streaming pipelines\<close>

text \<open>
  A shallow embedding of \<^verbatim>\<open>src/zpickle/core.py\<close>: \<^verbatim>\<open>dumps\<close>, \<^verbatim>\<open>loads\<close>, \<^verbatim>\<open>dump\<close>,
  \<^verbatim>\<open>load\<close>, \<^verbatim>\<open>dump_streaming\<close> and \<^verbatim>\<open>load_streaming\<close>.

  The functions of \<^verbatim>\<open>core.py\<close> call three collaborators: the \<^verbatim>\<open>pickle\<close> module,
  the \<^verbatim>\<open>compress_utils\<close> package and the modules \<^verbatim>\<open>zpickle.format\<close> and
  \<^verbatim>\<open>zpickle.config\<close>. None of them is among the sources, so each is a parameter of the
  model (a field of the record \<open>env\<close>, or the configuration record passed to the writers);
  what a theorem needs of them is a hypothesis of that theorem, written as a contract
  predicate.
\<close>

subsection \<open>Bytes, exceptions, warnings\<close>

type_synonym byte = "8 word"
type_synonym bytes = "byte list"

text \<open>
  Every exception the collaborators or \<^verbatim>\<open>core.py\<close> raise is a subclass of \<^verbatim>\<open>Exception\<close>,
  which is what the \<^verbatim>\<open>except Exception\<close> clauses of the readers catch. The string is the
  exception's message.
\<close>

datatype error =
    TypeError string
  | ValueError string
  | CodecError string
  | PickleError string
  | OverflowError string

fun str :: "error \<Rightarrow> string" where
  "str (TypeError m) = m"
| "str (ValueError m) = m"
| "str (CodecError m) = m"
| "str (PickleError m) = m"
| "str (OverflowError m) = m"

datatype warning = RuntimeWarning string

text \<open>
  The argument of \<^verbatim>\<open>loads\<close>: a \<^verbatim>\<open>bytes\<close> object, a \<^verbatim>\<open>bytearray\<close>, or a value of any
  other type, of which the model keeps the type's name.
\<close>

datatype pydata = Bytes bytes | ByteArray bytes | NotBytes string

subsection \<open>The collaborators\<close>

text \<open>
  \<^item> \<open>pickle_dumps\<close>, \<open>pickle_loads\<close>: \<^verbatim>\<open>pickle.dumps\<close> (and \<^verbatim>\<open>pickle.dump\<close> into a
    \<^verbatim>\<open>BytesIO\<close>, which produces the same bytes) and \<^verbatim>\<open>pickle.loads\<close>. The keyword
    arguments that \<^verbatim>\<open>core.py\<close> passes through untouched are one opaque value:
    \<open>'dkw\<close> stands for \<^verbatim>\<open>fix_imports, buffer_callback\<close> and \<open>'lkw\<close> for
    \<^verbatim>\<open>fix_imports, encoding, errors, buffers\<close>.
  \<^item> \<open>compress\<close>, \<open>decompress\<close>: the one-shot functions of \<^verbatim>\<open>compress_utils\<close>.
  \<^item> \<open>CompressStream\<close>, \<open>compressor_compress\<close>, \<open>compressor_finish\<close>: the constructor
    and the two methods of the incremental compressor; \<open>'cs\<close> is the object's state, and
    a method returns its output together with the new state. Likewise for
    \<open>DecompressStream\<close> and \<open>'ds\<close>.
  \<^item> \<open>encode_header\<close>, \<open>decode_header\<close>, \<open>is_zpickle_data\<close>: the functions of
    \<^verbatim>\<open>zpickle.format\<close>. \<open>decode_header\<close> returns the tuple
    \<^verbatim>\<open>(version, algorithm, level, reserved)\<close>.
  \<^item> \<open>read_other\<close>: what the \<^verbatim>\<open>read\<close> method of the caller's stream does with a
    size on which the stream classes differ (see the streams below): the number of bytes
    it returns, or the exception it raises.
\<close>

record ('obj, 'dkw, 'lkw, 'cs, 'ds) env =
  pickle_dumps :: "'obj \<Rightarrow> int option \<Rightarrow> 'dkw \<Rightarrow> error + bytes"
  pickle_loads :: "bytes \<Rightarrow> 'lkw \<Rightarrow> error + 'obj"
  compress :: "bytes \<Rightarrow> string \<Rightarrow> int \<Rightarrow> error + bytes"
  decompress :: "bytes \<Rightarrow> string \<Rightarrow> error + bytes"
  CompressStream :: "string \<Rightarrow> int \<Rightarrow> error + 'cs"
  compressor_compress :: "'cs \<Rightarrow> bytes \<Rightarrow> error + bytes \<times> 'cs"
  compressor_finish :: "'cs \<Rightarrow> error + bytes"
  DecompressStream :: "string \<Rightarrow> error + 'ds"
  decompressor_decompress :: "'ds \<Rightarrow> bytes \<Rightarrow> error + bytes \<times> 'ds"
  decompressor_finish :: "'ds \<Rightarrow> error + bytes"
  encode_header :: "string \<Rightarrow> int \<Rightarrow> error + bytes"
  decode_header :: "bytes \<Rightarrow> bool \<Rightarrow> error + int \<times> string \<times> int \<times> int"
  is_zpickle_data :: "bytes \<Rightarrow> bool"
  read_other :: "int \<Rightarrow> bytes \<Rightarrow> error + nat"

text \<open>
  Modelled from the spec: the record that \<^verbatim>\<open>get_config()\<close> of \<^verbatim>\<open>zpickle.config\<close>
  returns, \<^verbatim>\<open>{algorithm, level, min_size}\<close>. The writers read it and never assign to it;
  the model passes it as an argument.
\<close>

record ZpickleConfig =
  config_algorithm :: string
  config_level :: int
  config_min_size :: int

text \<open>
  Modelled from the spec: \<^verbatim>\<open>HEADER_SIZE\<close> of \<^verbatim>\<open>zpickle.format\<close>, the fixed 8 bytes of
  the header.
\<close>

definition HEADER_SIZE :: nat where
  "HEADER_SIZE = 8"

text \<open>\<^verbatim>\<open>DEFAULT_CHUNK_SIZE = 64 * 1024\<close>\<close>

definition DEFAULT_CHUNK_SIZE :: int where
  "DEFAULT_CHUNK_SIZE = 64 * 1024"

subsection \<open>Python's \<^verbatim>\<open>or\<close> on an optional argument\<close>

text \<open>
  \<^verbatim>\<open>algorithm or config.algorithm\<close> and \<^verbatim>\<open>level or config.level\<close>: the left operand
  when it is truthy, else the right one. \<^verbatim>\<open>None\<close>, the empty string and the integer 0
  are falsy.
\<close>

definition or_str :: "string option \<Rightarrow> string \<Rightarrow> string" where
  "or_str x d = (case x of None \<Rightarrow> d | Some s \<Rightarrow> if s = [] then d else s)"

definition or_int :: "int option \<Rightarrow> int \<Rightarrow> int" where
  "or_int x d = (case x of None \<Rightarrow> d | Some n \<Rightarrow> if n = 0 then d else n)"

subsection \<open>Streams\<close>

text \<open>
  A stream opened for reading is the list of the bytes not yet read; a read returns a
  prefix of it and the stream after the read. A stream opened for writing is the list of
  the bytes written so far, and \<^verbatim>\<open>file.write(b)\<close> appends.

  \<^verbatim>\<open>pickled_buffer\<close> in \<^verbatim>\<open>dump_streaming\<close> is always an \<^verbatim>\<open>io.BytesIO\<close>. Its
  \<^verbatim>\<open>read(n)\<close> converts \<open>n\<close> to a \<^verbatim>\<open>Py_ssize_t\<close> (64 bits here) and raises
  \<^verbatim>\<open>OverflowError\<close> when it does not fit; a negative \<open>n\<close> returns everything that is
  left; otherwise it returns the next \<open>n\<close> bytes, fewer at the end of the buffer, and
  none when \<open>n\<close> is 0.
\<close>

definition BytesIO_read :: "int \<Rightarrow> bytes \<Rightarrow> error + bytes \<times> bytes" where
  "BytesIO_read n buf =
     (if n < - (2 ^ 63) \<or> 2 ^ 63 \<le> n then
        Inl (OverflowError ''cannot fit int into an index-sized integer'')
      else if n < 0 then Inr (buf, [])
      else Inr (take (nat n) buf, drop (nat n) buf))"

text \<open>
  The stream that the caller hands to \<^verbatim>\<open>load\<close> and \<^verbatim>\<open>load_streaming\<close> is any binary
  stream that is read sequentially. For a size \<open>n\<close> with \<open>0 \<le> n < 2^63\<close> its
  \<^verbatim>\<open>read(n)\<close> returns the next \<open>n\<close> bytes, fewer only at the end of the stream, and
  \<^verbatim>\<open>read(-1)\<close>, like \<^verbatim>\<open>read()\<close>, returns everything that is left. On every other size
  the classes differ (an \<^verbatim>\<open>io.BytesIO\<close> takes every negative size for -1 and raises
  \<^verbatim>\<open>OverflowError\<close> from \<open>2^63\<close> on, a buffered file raises \<^verbatim>\<open>ValueError\<close> below
  -1): there the stream returns as many bytes as \<open>read_other\<close> says, or raises what it
  says.
\<close>

definition file_read ::
  "('obj, 'dkw, 'lkw, 'cs, 'ds) env \<Rightarrow> int \<Rightarrow> bytes \<Rightarrow> error + bytes \<times> bytes" where
  "file_read env n file =
     (if 0 \<le> n \<and> n < 2 ^ 63 then Inr (take (nat n) file, drop (nat n) file)
      else if n = - 1 then Inr (file, [])
      else
        (case read_other env n file of
           Inl e \<Rightarrow> Inl e
         | Inr k \<Rightarrow> Inr (take k file, drop k file)))"

definition file_read_all :: "bytes \<Rightarrow> bytes \<times> bytes" where
  "file_read_all file = (file, [])"

definition file_write :: "bytes \<Rightarrow> bytes \<Rightarrow> bytes" where
  "file_write file b = file @ b"

subsection \<open>\<^verbatim>\<open>dumps\<close> and \<^verbatim>\<open>loads\<close>\<close>

definition dumps ::
  "('obj, 'dkw, 'lkw, 'cs, 'ds) env \<Rightarrow> ZpickleConfig \<Rightarrow> 'obj \<Rightarrow> int option \<Rightarrow> 'dkw
    \<Rightarrow> string option \<Rightarrow> int option \<Rightarrow> error + bytes" where
  "dumps env config obj protocol kw algorithm level =
     (case pickle_dumps env obj protocol kw of
        Inl e \<Rightarrow> Inl e
      | Inr pickled_data \<Rightarrow>
          (let alg = or_str algorithm (config_algorithm config);
               lvl = or_int level (config_level config)
           in if int (length pickled_data) < config_min_size config \<or> alg = ''none'' then
                (case encode_header env ''none'' 0 of
                   Inl e \<Rightarrow> Inl e
                 | Inr header \<Rightarrow> Inr (header @ pickled_data))
              else
                (case compress env pickled_data alg lvl of
                   Inl e \<Rightarrow> Inl e
                 | Inr compressed_data \<Rightarrow>
                     (case encode_header env alg lvl of
                        Inl e \<Rightarrow> Inl e
                      | Inr header \<Rightarrow> Inr (header @ compressed_data)))))"

text \<open>
  The body of the \<^verbatim>\<open>try\<close> block of \<^verbatim>\<open>loads\<close>: the bytes to unpickle, or the exception
  raised on the way.
\<close>

definition loads_try ::
  "('obj, 'dkw, 'lkw, 'cs, 'ds) env \<Rightarrow> bytes \<Rightarrow> bool \<Rightarrow> error + bytes" where
  "loads_try env data strict =
     (case decode_header env data strict of
        Inl e \<Rightarrow> Inl e
      | Inr (_, algorithm, _, _) \<Rightarrow>
          (let compressed_data = drop HEADER_SIZE data
           in if algorithm = ''none'' then Inr compressed_data
              else decompress env compressed_data algorithm))"

definition fallback_warning :: "error \<Rightarrow> warning" where
  "fallback_warning e =
     RuntimeWarning (''Error processing zpickle data, falling back to regular pickle: '' @ str e)"

text \<open>
  A reader returns the warnings that \<^verbatim>\<open>core.py\<close> issued, in order, and either the
  unpickled object or the exception that left the function.
\<close>

definition loads_bytes ::
  "('obj, 'dkw, 'lkw, 'cs, 'ds) env \<Rightarrow> bytes \<Rightarrow> 'lkw \<Rightarrow> bool \<Rightarrow> warning list \<times> (error + 'obj)" where
  "loads_bytes env data kw strict =
     (if is_zpickle_data env data then
        (case loads_try env data strict of
           Inr pickled_data \<Rightarrow> ([], pickle_loads env pickled_data kw)
         | Inl e \<Rightarrow>
             if strict then ([], Inl e)
             else ([fallback_warning e], pickle_loads env data kw))
      else ([], pickle_loads env data kw))"

definition loads ::
  "('obj, 'dkw, 'lkw, 'cs, 'ds) env \<Rightarrow> pydata \<Rightarrow> 'lkw \<Rightarrow> bool \<Rightarrow> warning list \<times> (error + 'obj)" where
  "loads env data kw strict =
     (case data of
        NotBytes type_name \<Rightarrow>
          ([], Inl (TypeError (''A bytes-like object is required, not '' @
                               [CHR 0x27] @ type_name @ [CHR 0x27])))
      | Bytes b \<Rightarrow> loads_bytes env b kw strict
      | ByteArray b \<Rightarrow> loads_bytes env b kw strict)"

subsection \<open>\<^verbatim>\<open>dump\<close> and \<^verbatim>\<open>load\<close>\<close>

text \<open>
  A writer returns the output stream after the call and \<open>Inr ()\<close> when it returned
  normally, or the exception that left it.
\<close>

definition dump ::
  "('obj, 'dkw, 'lkw, 'cs, 'ds) env \<Rightarrow> ZpickleConfig \<Rightarrow> 'obj \<Rightarrow> bytes \<Rightarrow> int option \<Rightarrow> 'dkw
    \<Rightarrow> string option \<Rightarrow> int option \<Rightarrow> bytes \<times> (error + unit)" where
  "dump env config obj file protocol kw algorithm level =
     (case dumps env config obj protocol kw algorithm level of
        Inl e \<Rightarrow> (file, Inl e)
      | Inr data \<Rightarrow> (file_write file data, Inr ()))"

text \<open>
  The \<^verbatim>\<open>try\<close> block of \<^verbatim>\<open>load\<close>: the stream after the block, and the bytes to unpickle
  or the exception raised.
\<close>

definition load_try ::
  "('obj, 'dkw, 'lkw, 'cs, 'ds) env \<Rightarrow> bytes \<Rightarrow> bytes \<Rightarrow> bool \<Rightarrow> bytes \<times> (error + bytes)" where
  "load_try env header file strict =
     (case decode_header env header strict of
        Inl e \<Rightarrow> (file, Inl e)
      | Inr (_, algorithm, _, _) \<Rightarrow>
          (case file_read_all file of
             (compressed_data, file') \<Rightarrow>
               if algorithm = ''none'' then (file', Inr compressed_data)
               else (file', decompress env compressed_data algorithm)))"

definition load ::
  "('obj, 'dkw, 'lkw, 'cs, 'ds) env \<Rightarrow> bytes \<Rightarrow> 'lkw \<Rightarrow> bool \<Rightarrow> warning list \<times> (error + 'obj)" where
  "load env file kw strict =
     (case file_read env (int HEADER_SIZE) file of
        Inl e \<Rightarrow> ([], Inl e)
      | Inr (header, file1) \<Rightarrow>
          if is_zpickle_data env header then
            (case load_try env header file1 strict of
               (file2, r) \<Rightarrow>
                 (case r of
                    Inr pickled_data \<Rightarrow> ([], pickle_loads env pickled_data kw)
                  | Inl e \<Rightarrow>
                      if strict then ([], Inl e)
                      else ([fallback_warning e],
                            pickle_loads env (header @ fst (file_read_all file2)) kw)))
          else ([], pickle_loads env (header @ fst (file_read_all file1)) kw))"

subsection \<open>\<^verbatim>\<open>dump_streaming\<close>\<close>

text \<open>
  The loop of the bypass branch,
  \<^verbatim>\<open>while True: chunk = pickled_buffer.read(chunk_size); if not chunk: break; file.write(chunk)\<close>.
  It returns the output stream after the loop, and \<open>Inr ()\<close> or the exception that
  \<^verbatim>\<open>read\<close> raised.
\<close>

function write_chunks :: "int \<Rightarrow> bytes \<Rightarrow> bytes \<Rightarrow> bytes \<times> (error + unit)" where
  "write_chunks chunk_size pickled_buffer file =
     (case BytesIO_read chunk_size pickled_buffer of
        Inl e \<Rightarrow> (file, Inl e)
      | Inr (chunk, pickled_buffer') \<Rightarrow>
          if chunk = [] then (file, Inr ())
          else write_chunks chunk_size pickled_buffer' (file_write file chunk))"
  by pat_completeness auto
termination
  by (relation "measure (\<lambda>(n, buf, f). length buf)")
     (auto simp: BytesIO_read_def split: if_splits)

text \<open>
  The compressing loop: each chunk read from \<^verbatim>\<open>pickled_buffer\<close> goes through
  \<^verbatim>\<open>compressor.compress\<close>, and what comes out is written when it is not empty. The
  result is the output stream, and the compressor after the loop or the exception.
\<close>

function compress_chunks ::
  "('obj, 'dkw, 'lkw, 'cs, 'ds) env \<Rightarrow> int \<Rightarrow> 'cs \<Rightarrow> bytes \<Rightarrow> bytes \<Rightarrow> bytes \<times> (error + 'cs)" where
  "compress_chunks env chunk_size compressor pickled_buffer file =
     (case BytesIO_read chunk_size pickled_buffer of
        Inl e \<Rightarrow> (file, Inl e)
      | Inr (chunk, pickled_buffer') \<Rightarrow>
          if chunk = [] then (file, Inr compressor)
          else
            (case compressor_compress env compressor chunk of
               Inl e \<Rightarrow> (file, Inl e)
             | Inr (compressed_chunk, compressor') \<Rightarrow>
                 compress_chunks env chunk_size compressor' pickled_buffer'
                   (if compressed_chunk \<noteq> [] then file_write file compressed_chunk else file)))"
  by pat_completeness auto
termination
  by (relation "measure (\<lambda>(env, n, c, buf, f). length buf)")
     (auto simp: BytesIO_read_def split: if_splits)

definition dump_streaming ::
  "('obj, 'dkw, 'lkw, 'cs, 'ds) env \<Rightarrow> ZpickleConfig \<Rightarrow> 'obj \<Rightarrow> bytes \<Rightarrow> int option \<Rightarrow> 'dkw
    \<Rightarrow> string option \<Rightarrow> int option \<Rightarrow> int \<Rightarrow> bytes \<times> (error + unit)" where
  "dump_streaming env config obj file protocol kw algorithm level chunk_size =
     (let alg = or_str algorithm (config_algorithm config);
          lvl = or_int level (config_level config)
      in case pickle_dumps env obj protocol kw of
           Inl e \<Rightarrow> (file, Inl e)
         | Inr pickled_buffer \<Rightarrow>
             (let pickled_size = int (length pickled_buffer)
              in if pickled_size < config_min_size config \<or> alg = ''none'' then
                   (case encode_header env ''none'' 0 of
                      Inl e \<Rightarrow> (file, Inl e)
                    | Inr header \<Rightarrow>
                        write_chunks chunk_size pickled_buffer (file_write file header))
                 else
                   (case encode_header env alg lvl of
                      Inl e \<Rightarrow> (file, Inl e)
                    | Inr header \<Rightarrow>
                        (let file1 = file_write file header
                         in case CompressStream env alg lvl of
                              Inl e \<Rightarrow> (file1, Inl e)
                            | Inr compressor \<Rightarrow>
                                (case compress_chunks env chunk_size compressor
                                        pickled_buffer file1 of
                                   (file2, r) \<Rightarrow>
                                     (case r of
                                        Inl e \<Rightarrow> (file2, Inl e)
                                      | Inr compressor' \<Rightarrow>
                                          (case compressor_finish env compressor' of
                                             Inl e \<Rightarrow> (file2, Inl e)
                                           | Inr final_chunk \<Rightarrow>
                                               (if final_chunk \<noteq> []
                                                then file_write file2 final_chunk
                                                else file2, Inr ()))))))))"

subsection \<open>\<^verbatim>\<open>load_streaming\<close>\<close>

text \<open>
  The loop of the branch without compression,
  \<^verbatim>\<open>while True: chunk = file.read(chunk_size); if not chunk: break; pickled_buffer.write(chunk)\<close>.
  It returns the input stream after the loop, and the buffer or the exception that
  \<^verbatim>\<open>read\<close> raised.
\<close>

function read_chunks ::
  "('obj, 'dkw, 'lkw, 'cs, 'ds) env \<Rightarrow> int \<Rightarrow> bytes \<Rightarrow> bytes \<Rightarrow> bytes \<times> (error + bytes)" where
  "read_chunks env chunk_size file pickled_buffer =
     (case file_read env chunk_size file of
        Inl e \<Rightarrow> (file, Inl e)
      | Inr (chunk, file') \<Rightarrow>
          if chunk = [] then (file', Inr pickled_buffer)
          else read_chunks env chunk_size file' (file_write pickled_buffer chunk))"
  by pat_completeness auto
termination
  by (relation "measure (\<lambda>(env, n, f, buf). length f)")
     (auto simp: file_read_def split: if_splits sum.splits)

text \<open>
  The decompressing loop: each chunk read from \<^verbatim>\<open>file\<close> goes through
  \<^verbatim>\<open>decompressor.decompress\<close>, and what comes out is appended to \<^verbatim>\<open>pickled_buffer\<close>
  when it is not empty. The result is the input stream after the loop, and the buffer
  with the decompressor or the exception.
\<close>

function decompress_chunks ::
  "('obj, 'dkw, 'lkw, 'cs, 'ds) env \<Rightarrow> int \<Rightarrow> 'ds \<Rightarrow> bytes \<Rightarrow> bytes
    \<Rightarrow> bytes \<times> (error + bytes \<times> 'ds)" where
  "decompress_chunks env chunk_size decompressor file pickled_buffer =
     (case file_read env chunk_size file of
        Inl e \<Rightarrow> (file, Inl e)
      | Inr (chunk, file') \<Rightarrow>
          if chunk = [] then (file', Inr (pickled_buffer, decompressor))
          else
            (case decompressor_decompress env decompressor chunk of
               Inl e \<Rightarrow> (file', Inl e)
             | Inr (decompressed_chunk, decompressor') \<Rightarrow>
                 decompress_chunks env chunk_size decompressor' file'
                   (if decompressed_chunk \<noteq> [] then file_write pickled_buffer decompressed_chunk
                    else pickled_buffer)))"
  by pat_completeness auto
termination
  by (relation "measure (\<lambda>(env, n, d, f, buf). length f)")
     (auto simp: file_read_def split: if_splits sum.splits)

text \<open>The \<^verbatim>\<open>try\<close> block of \<^verbatim>\<open>load_streaming\<close>, like \<open>load_try\<close>.\<close>

definition load_streaming_try ::
  "('obj, 'dkw, 'lkw, 'cs, 'ds) env \<Rightarrow> bytes \<Rightarrow> bytes \<Rightarrow> bool \<Rightarrow> int
    \<Rightarrow> bytes \<times> (error + bytes)" where
  "load_streaming_try env header file strict chunk_size =
     (case decode_header env header strict of
        Inl e \<Rightarrow> (file, Inl e)
      | Inr (_, algorithm, _, _) \<Rightarrow>
          if algorithm = ''none'' then read_chunks env chunk_size file []
          else
            (case DecompressStream env algorithm of
               Inl e \<Rightarrow> (file, Inl e)
             | Inr decompressor \<Rightarrow>
                 (case decompress_chunks env chunk_size decompressor file [] of
                    (file', r) \<Rightarrow>
                      (case r of
                         Inl e \<Rightarrow> (file', Inl e)
                       | Inr (pickled_buffer, decompressor') \<Rightarrow>
                           (case decompressor_finish env decompressor' of
                              Inl e \<Rightarrow> (file', Inl e)
                            | Inr final_chunk \<Rightarrow>
                                (file', Inr (if final_chunk \<noteq> []
                                             then file_write pickled_buffer final_chunk
                                             else pickled_buffer)))))))"

definition load_streaming ::
  "('obj, 'dkw, 'lkw, 'cs, 'ds) env \<Rightarrow> bytes \<Rightarrow> 'lkw \<Rightarrow> bool \<Rightarrow> int
    \<Rightarrow> warning list \<times> (error + 'obj)" where
  "load_streaming env file kw strict chunk_size =
     (case file_read env (int HEADER_SIZE) file of
        Inl e \<Rightarrow> ([], Inl e)
      | Inr (header, file1) \<Rightarrow>
          if length header < HEADER_SIZE then
            ([], pickle_loads env (header @ fst (file_read_all file1)) kw)
          else if is_zpickle_data env header then
            (case load_streaming_try env header file1 strict chunk_size of
               (file2, r) \<Rightarrow>
                 (case r of
                    Inr pickled_data \<Rightarrow> ([], pickle_loads env pickled_data kw)
                  | Inl e \<Rightarrow>
                      if strict then ([], Inl e)
                      else ([fallback_warning e],
                            pickle_loads env (header @ fst (file_read_all file2)) kw)))
          else ([], pickle_loads env (header @ fst (file_read_all file1)) kw))"

section \<open>What the theorems assume of the collaborators\<close>

text \<open>
  The decision of the writers, \<^verbatim>\<open>len(pickled_data) < config.min_size or alg == "none"\<close>,
  as a predicate of the configuration, the pickled bytes and the resolved algorithm.
\<close>

definition skips_compression :: "ZpickleConfig \<Rightarrow> bytes \<Rightarrow> string \<Rightarrow> bool" where
  "skips_compression config pickled alg \<longleftrightarrow>
     int (length pickled) < config_min_size config \<or> alg = ''none''"

text \<open>
  The header codec on the header of one algorithm and level: \<open>encode_header\<close> returns
  8 bytes, which \<open>is_zpickle_data\<close> recognises and from which \<open>decode_header\<close> returns
  the algorithm's name, in both modes and whatever follows the header.
\<close>

definition header_ok ::
  "('obj, 'dkw, 'lkw, 'cs, 'ds) env \<Rightarrow> string \<Rightarrow> int \<Rightarrow> bytes \<Rightarrow> bool" where
  "header_ok env alg lvl header \<longleftrightarrow>
     encode_header env alg lvl = Inr header \<and> length header = HEADER_SIZE \<and>
     (\<forall>rest. is_zpickle_data env (header @ rest)) \<and>
     (\<forall>rest strict. \<exists>v l r. decode_header env (header @ rest) strict = Inr (v, alg, l, r))"

text \<open>The one-shot codec is lossless on \<open>data\<close>.\<close>

definition oneshot_ok ::
  "('obj, 'dkw, 'lkw, 'cs, 'ds) env \<Rightarrow> string \<Rightarrow> int \<Rightarrow> bytes \<Rightarrow> bytes \<Rightarrow> bool" where
  "oneshot_ok env alg lvl data compressed \<longleftrightarrow>
     compress env data alg lvl = Inr compressed \<and> decompress env compressed alg = Inr data"

text \<open>
  The incremental objects run over a list of chunks: every chunk goes through the
  method, the outputs are concatenated, and \<open>finish\<close> is called once at the end.
\<close>

fun feed_compressor ::
  "('obj, 'dkw, 'lkw, 'cs, 'ds) env \<Rightarrow> 'cs \<Rightarrow> bytes list \<Rightarrow> error + bytes \<times> 'cs" where
  "feed_compressor env c [] = Inr ([], c)"
| "feed_compressor env c (chunk # chunks) =
     (case compressor_compress env c chunk of
        Inl e \<Rightarrow> Inl e
      | Inr (out, c') \<Rightarrow>
          (case feed_compressor env c' chunks of
             Inl e \<Rightarrow> Inl e
           | Inr (outs, c'') \<Rightarrow> Inr (out @ outs, c'')))"

definition stream_compress ::
  "('obj, 'dkw, 'lkw, 'cs, 'ds) env \<Rightarrow> string \<Rightarrow> int \<Rightarrow> bytes list \<Rightarrow> error + bytes" where
  "stream_compress env alg lvl chunks =
     (case CompressStream env alg lvl of
        Inl e \<Rightarrow> Inl e
      | Inr c \<Rightarrow>
          (case feed_compressor env c chunks of
             Inl e \<Rightarrow> Inl e
           | Inr (outs, c') \<Rightarrow>
               (case compressor_finish env c' of
                  Inl e \<Rightarrow> Inl e
                | Inr final_chunk \<Rightarrow> Inr (outs @ final_chunk))))"

fun feed_decompressor ::
  "('obj, 'dkw, 'lkw, 'cs, 'ds) env \<Rightarrow> 'ds \<Rightarrow> bytes list \<Rightarrow> error + bytes \<times> 'ds" where
  "feed_decompressor env d [] = Inr ([], d)"
| "feed_decompressor env d (chunk # chunks) =
     (case decompressor_decompress env d chunk of
        Inl e \<Rightarrow> Inl e
      | Inr (out, d') \<Rightarrow>
          (case feed_decompressor env d' chunks of
             Inl e \<Rightarrow> Inl e
           | Inr (outs, d'') \<Rightarrow> Inr (out @ outs, d'')))"

definition stream_decompress ::
  "('obj, 'dkw, 'lkw, 'cs, 'ds) env \<Rightarrow> string \<Rightarrow> bytes list \<Rightarrow> error + bytes" where
  "stream_decompress env alg chunks =
     (case DecompressStream env alg of
        Inl e \<Rightarrow> Inl e
      | Inr d \<Rightarrow>
          (case feed_decompressor env d chunks of
             Inl e \<Rightarrow> Inl e
           | Inr (outs, d') \<Rightarrow>
               (case decompressor_finish env d' of
                  Inl e \<Rightarrow> Inl e
                | Inr final_chunk \<Rightarrow> Inr (outs @ final_chunk))))"

text \<open>A way to cut \<open>data\<close> into chunks none of which is empty.\<close>

definition chunking :: "bytes list \<Rightarrow> bytes \<Rightarrow> bool" where
  "chunking chunks data \<longleftrightarrow> concat chunks = data \<and> [] \<notin> set chunks"

text \<open>
  Both decoders of \<^verbatim>\<open>compress_utils\<close> recover \<open>data\<close> from \<open>compressed\<close>: the one-shot
  function, and the incremental object however the input is cut.
\<close>

definition decodes ::
  "('obj, 'dkw, 'lkw, 'cs, 'ds) env \<Rightarrow> string \<Rightarrow> bytes \<Rightarrow> bytes \<Rightarrow> bool" where
  "decodes env alg compressed data \<longleftrightarrow>
     decompress env compressed alg = Inr data \<and>
     (\<forall>chunks. chunking chunks compressed \<longrightarrow> stream_decompress env alg chunks = Inr data)"

text \<open>
  The incremental compressor is lossless on \<open>data\<close>: however \<open>data\<close> is cut, it
  succeeds, and both decoders recover \<open>data\<close> from what it wrote.
\<close>

definition stream_ok ::
  "('obj, 'dkw, 'lkw, 'cs, 'ds) env \<Rightarrow> string \<Rightarrow> int \<Rightarrow> bytes \<Rightarrow> bool" where
  "stream_ok env alg lvl data \<longleftrightarrow>
     (\<forall>chunks. chunking chunks data \<longrightarrow>
        (\<exists>compressed. stream_compress env alg lvl chunks = Inr compressed \<and>
                       decodes env alg compressed data))"

text \<open>
  \<open>data\<close> is a container of \<open>pickled\<close>: a header that the header codec handles,
  followed by \<open>pickled\<close> itself when the header's algorithm is \<^verbatim>\<open>none\<close>, and else by
  bytes from which both decoders recover \<open>pickled\<close>.
\<close>

definition container :: "('obj, 'dkw, 'lkw, 'cs, 'ds) env \<Rightarrow> bytes \<Rightarrow> bytes \<Rightarrow> bool" where
  "container env data pickled \<longleftrightarrow>
     (\<exists>alg lvl header payload.
        data = header @ payload \<and> header_ok env alg lvl header \<and>
        (if alg = ''none'' then payload = pickled else decodes env alg payload pickled))"

text \<open>The algorithm and the level that a writer resolves its arguments to.\<close>

abbreviation resolved_alg :: "ZpickleConfig \<Rightarrow> string option \<Rightarrow> string" where
  "resolved_alg config algorithm \<equiv> or_str algorithm (config_algorithm config)"

abbreviation resolved_lvl :: "ZpickleConfig \<Rightarrow> int option \<Rightarrow> int" where
  "resolved_lvl config level \<equiv> or_int level (config_level config)"

text \<open>
  The chunk sizes on which every stream agrees and a reading loop makes progress, and
  the chunks that the loop then sees: pieces of \<open>n\<close> bytes, the last one shorter.
\<close>

definition positive_size :: "int \<Rightarrow> bool" where
  "positive_size n \<longleftrightarrow> 0 < n \<and> n < 2 ^ 63"

function chunks_of :: "nat \<Rightarrow> bytes \<Rightarrow> bytes list" where
  "chunks_of n src =
     (if n = 0 \<or> src = [] then [] else take n src # chunks_of n (drop n src))"
  by pat_completeness auto
termination
  by (relation "measure (\<lambda>(n, src). length src)") auto

section \<open>A concrete instance of the collaborators\<close>

text \<open>
  The instance at which the theorems are applied. Objects are byte strings.
  \<^item> The serializer frames the object between the opcodes \<^verbatim>\<open>PROTO\<close> (0x80) and
    \<^verbatim>\<open>STOP\<close> (0x2E); the deserializer rejects anything else, the empty input first.
  \<^item> The codec knows one algorithm, \<^verbatim>\<open>zstd\<close>. A compressed frame is the byte 0xFD,
    the level, and the data reversed. The incremental objects buffer their input and
    do the work in \<open>finish\<close>; the compressor's state is the level and the buffer.
\<close>

definition demo_pickle_dumps :: "bytes \<Rightarrow> int option \<Rightarrow> unit \<Rightarrow> error + bytes" where
  "demo_pickle_dumps obj protocol kw = Inr (0x80 # obj @ [0x2E])"

definition demo_pickle_loads :: "bytes \<Rightarrow> unit \<Rightarrow> error + bytes" where
  "demo_pickle_loads data kw =
     (case data of
        [] \<Rightarrow> Inl (PickleError ''Ran out of input'')
      | b # rest \<Rightarrow>
          if b = 0x80 \<and> rest \<noteq> [] \<and> last rest = 0x2E then Inr (butlast rest)
          else Inl (PickleError ''invalid load key''))"

definition demo_frame :: "int \<Rightarrow> bytes \<Rightarrow> bytes" where
  "demo_frame lvl data = 0xFD # word_of_int lvl # rev data"

definition demo_unframe :: "bytes \<Rightarrow> error + bytes" where
  "demo_unframe data =
     (case data of
        m # l # payload \<Rightarrow>
          if m = 0xFD then Inr (rev payload) else Inl (CodecError ''bad frame'')
      | _ \<Rightarrow> Inl (CodecError ''truncated frame''))"

definition demo_compress :: "bytes \<Rightarrow> string \<Rightarrow> int \<Rightarrow> error + bytes" where
  "demo_compress data alg lvl =
     (if alg = ''zstd'' then Inr (demo_frame lvl data)
      else Inl (CodecError ''unknown algorithm''))"

definition demo_decompress :: "bytes \<Rightarrow> string \<Rightarrow> error + bytes" where
  "demo_decompress data alg =
     (if alg = ''zstd'' then demo_unframe data
      else Inl (CodecError ''unknown algorithm''))"

definition demo_CompressStream :: "string \<Rightarrow> int \<Rightarrow> error + int \<times> bytes" where
  "demo_CompressStream alg lvl =
     (if alg = ''zstd'' then Inr (lvl, []) else Inl (CodecError ''unknown algorithm''))"

definition demo_compressor_compress ::
  "int \<times> bytes \<Rightarrow> bytes \<Rightarrow> error + bytes \<times> (int \<times> bytes)" where
  "demo_compressor_compress c chunk = Inr ([], (fst c, snd c @ chunk))"

definition demo_compressor_finish :: "int \<times> bytes \<Rightarrow> error + bytes" where
  "demo_compressor_finish c = Inr (demo_frame (fst c) (snd c))"

definition demo_DecompressStream :: "string \<Rightarrow> error + bytes" where
  "demo_DecompressStream alg =
     (if alg = ''zstd'' then Inr [] else Inl (CodecError ''unknown algorithm''))"

definition demo_decompressor_decompress :: "bytes \<Rightarrow> bytes \<Rightarrow> error + bytes \<times> bytes" where
  "demo_decompressor_decompress d chunk = Inr ([], d @ chunk)"

definition demo_decompressor_finish :: "bytes \<Rightarrow> error + bytes" where
  "demo_decompressor_finish d = demo_unframe d"

text \<open>
  Modelled from the spec: the functions of \<^verbatim>\<open>zpickle.format\<close>, which is not among the
  sources. The header is 8 bytes: the magic/version marker in bytes 0 to 4 (here the
  four letters \<^verbatim>\<open>ZPKL\<close> and the version 1), the algorithm's id at offset 5 (0 for
  \<^verbatim>\<open>none\<close>), the level at offset 6, and a reserved byte. \<open>is_zpickle_data\<close> is true
  iff the input has the 8 bytes of a header and its first bytes are the marker.
  \<open>decode_header\<close> raises on an unrecognized magic and on an unknown algorithm id, for
  which it has no value to return; on an unsupported version it raises in strict mode
  and returns what it reads in non-strict mode.
\<close>

definition demo_magic :: bytes where
  "demo_magic = [0x5A, 0x50, 0x4B, 0x4C]"

definition demo_version :: byte where
  "demo_version = 1"

definition demo_algorithm_id :: "string \<Rightarrow> byte option" where
  "demo_algorithm_id alg =
     (if alg = ''none'' then Some 0 else if alg = ''zstd'' then Some 1 else None)"

definition demo_algorithm_name :: "byte \<Rightarrow> string option" where
  "demo_algorithm_name i =
     (if i = 0 then Some ''none'' else if i = 1 then Some ''zstd'' else None)"

definition demo_encode_header :: "string \<Rightarrow> int \<Rightarrow> error + bytes" where
  "demo_encode_header alg lvl =
     (case demo_algorithm_id alg of
        None \<Rightarrow> Inl (ValueError ''unknown algorithm'')
      | Some i \<Rightarrow>
          if 0 \<le> lvl \<and> lvl \<le> 255 then
            Inr (demo_magic @ [demo_version, i, word_of_int lvl, 0])
          else Inl (ValueError ''level out of range''))"

definition demo_is_zpickle_data :: "bytes \<Rightarrow> bool" where
  "demo_is_zpickle_data data \<longleftrightarrow>
     HEADER_SIZE \<le> length data \<and> take 5 data = demo_magic @ [demo_version]"

definition demo_decode_fields :: "bytes \<Rightarrow> error + int \<times> string \<times> int \<times> int" where
  "demo_decode_fields data =
     (case demo_algorithm_name (data ! 5) of
        None \<Rightarrow> Inl (ValueError ''Unknown algorithm id'')
      | Some alg \<Rightarrow> Inr (uint (data ! 4), alg, uint (data ! 6), uint (data ! 7)))"

definition demo_decode_header :: "bytes \<Rightarrow> bool \<Rightarrow> error + int \<times> string \<times> int \<times> int" where
  "demo_decode_header data strict =
     (if length data < HEADER_SIZE then Inl (ValueError ''Not a valid zpickle format'')
      else if take 4 data = demo_magic then
        (if data ! 4 = demo_version then demo_decode_fields data
         else if strict then Inl (ValueError ''Unsupported zpickle version'')
         else demo_decode_fields data)
      else Inl (ValueError ''Not a valid zpickle format''))"

text \<open>The caller's stream of the instance is an \<^verbatim>\<open>io.BytesIO\<close>.\<close>

definition demo_read_other :: "int \<Rightarrow> bytes \<Rightarrow> error + nat" where
  "demo_read_other n file =
     (if n < - (2 ^ 63) \<or> 2 ^ 63 \<le> n then
        Inl (OverflowError ''cannot fit int into an index-sized integer'')
      else Inr (length file))"

definition demo_env :: "(bytes, unit, unit, int \<times> bytes, bytes) env" where
  "demo_env =
     \<lparr> pickle_dumps = demo_pickle_dumps,
       pickle_loads = demo_pickle_loads,
       compress = demo_compress,
       decompress = demo_decompress,
       CompressStream = demo_CompressStream,
       compressor_compress = demo_compressor_compress,
       compressor_finish = demo_compressor_finish,
       DecompressStream = demo_DecompressStream,
       decompressor_decompress = demo_decompressor_decompress,
       decompressor_finish = demo_decompressor_finish,
       encode_header = demo_encode_header,
       decode_header = demo_decode_header,
       is_zpickle_data = demo_is_zpickle_data,
       read_other = demo_read_other \<rparr>"

text \<open>
  The same instance with a deserializer that returns the bytes it is given, so that the
  bytes a reader hands to \<^verbatim>\<open>pickle.loads\<close> can be read off its result.
\<close>

definition echo_env :: "(bytes, unit, unit, int \<times> bytes, bytes) env" where
  "echo_env = demo_env \<lparr> pickle_loads := (\<lambda>data kw. Inr data) \<rparr>"

definition demo_config :: ZpickleConfig where
  "demo_config = \<lparr> config_algorithm = ''zstd'', config_level = 3, config_min_size = 4 \<rparr>"

section \<open>Properties\<close>

subsection \<open>The loops\<close>

lemma positive_size_nat: "positive_size n \<Longrightarrow> 0 < nat n"
  by (simp add: positive_size_def)

lemma BytesIO_read_positive:
  "positive_size n \<Longrightarrow> BytesIO_read n buf = Inr (take (nat n) buf, drop (nat n) buf)"
  by (simp add: BytesIO_read_def positive_size_def)

lemma BytesIO_read_zero: "BytesIO_read 0 buf = Inr ([], buf)"
  by (simp add: BytesIO_read_def)

lemma file_read_positive:
  "positive_size n \<Longrightarrow> file_read env n file = Inr (take (nat n) file, drop (nat n) file)"
  by (simp add: file_read_def positive_size_def)

lemma file_read_zero: "file_read env 0 file = Inr ([], file)"
  by (simp add: file_read_def)

lemma file_read_header:
  "file_read env (int HEADER_SIZE) file = Inr (take HEADER_SIZE file, drop HEADER_SIZE file)"
  by (simp add: file_read_def HEADER_SIZE_def)

lemma chunking_chunks_of: "0 < n \<Longrightarrow> chunking (chunks_of n src) src"
proof (induction n src rule: chunks_of.induct)
  case (1 n src)
  then show ?case
    by (cases "src = []") (auto simp: chunking_def)
qed

lemma concat_chunks_of: "0 < n \<Longrightarrow> concat (chunks_of n src) = src"
  using chunking_chunks_of [of n src] by (simp add: chunking_def)

declare write_chunks.simps [simp del] read_chunks.simps [simp del] chunks_of.simps [simp del]
  compress_chunks.simps [simp del] decompress_chunks.simps [simp del]

lemma chunks_of_Nil: "chunks_of n [] = []"
  by (simp add: chunks_of.simps)

lemma chunks_of_Cons:
  "0 < n \<Longrightarrow> src \<noteq> [] \<Longrightarrow> chunks_of n src = take n src # chunks_of n (drop n src)"
  by (simp add: chunks_of.simps [of n src])

lemma write_chunks_zero: "write_chunks 0 src dst = (dst, Inr ())"
  by (simp add: write_chunks.simps [of 0] BytesIO_read_zero)

lemma write_chunks_all:
  assumes n: "positive_size n"
  shows "write_chunks n src dst = (dst @ src, Inr ())"
proof (induction src arbitrary: dst rule: length_induct)
  case (1 src)
  show ?case
  proof (cases "src = []")
    case True
    then show ?thesis
      by (simp add: write_chunks.simps [of n] BytesIO_read_positive [OF n])
  next
    case False
    with positive_size_nat [OF n] have shorter: "length (drop (nat n) src) < length src"
      and ne: "take (nat n) src \<noteq> []"
      by auto
    from "1.IH" shorter
    have "write_chunks n (drop (nat n) src) (file_write dst (take (nat n) src)) =
            (file_write dst (take (nat n) src) @ drop (nat n) src, Inr ())"
      by blast
    with ne show ?thesis
      by (simp add: write_chunks.simps [of n src] BytesIO_read_positive [OF n] file_write_def)
  qed
qed

lemma write_chunks_appends: "\<exists>written. fst (write_chunks n src dst) = dst @ written"
proof (induction n src dst rule: write_chunks.induct)
  case (1 n src dst)
  show ?case
  proof (cases "BytesIO_read n src")
    case (Inl e)
    then show ?thesis
      by (simp add: write_chunks.simps [of n src])
  next
    case (Inr r)
    obtain chunk src' where r: "r = (chunk, src')"
      by (cases r)
    show ?thesis
    proof (cases "chunk = []")
      case True
      with Inr r show ?thesis
        by (simp add: write_chunks.simps [of n src])
    next
      case False
      from "1.IH" [OF Inr r [symmetric] False] obtain written where
        "fst (write_chunks n src' (file_write dst chunk)) = file_write dst chunk @ written"
        by blast
      with Inr r False show ?thesis
        by (simp add: write_chunks.simps [of n src] file_write_def)
    qed
  qed
qed

lemma read_chunks_all:
  assumes n: "positive_size n"
  shows "read_chunks env n src dst = ([], Inr (dst @ src))"
proof (induction src arbitrary: dst rule: length_induct)
  case (1 src)
  show ?case
  proof (cases "src = []")
    case True
    then show ?thesis
      by (simp add: read_chunks.simps [of env n] file_read_positive [OF n])
  next
    case False
    with positive_size_nat [OF n] have shorter: "length (drop (nat n) src) < length src"
      and ne: "take (nat n) src \<noteq> []"
      by auto
    from "1.IH" shorter
    have "read_chunks env n (drop (nat n) src) (file_write dst (take (nat n) src)) =
            ([], Inr (file_write dst (take (nat n) src) @ drop (nat n) src))"
      by blast
    with ne show ?thesis
      by (simp add: read_chunks.simps [of env n src] file_read_positive [OF n] file_write_def)
  qed
qed

lemma compress_chunks_zero: "compress_chunks env 0 c src dst = (dst, Inr c)"
  by (simp add: compress_chunks.simps [of env 0] BytesIO_read_zero)

lemma compress_chunks_feed:
  assumes n: "positive_size n"
  shows "feed_compressor env c (chunks_of (nat n) src) = Inr (outs, c') \<Longrightarrow>
         compress_chunks env n c src dst = (dst @ outs, Inr c')"
proof (induction src arbitrary: c dst outs rule: length_induct)
  case (1 src)
  show ?case
  proof (cases "src = []")
    case True
    with "1.prems" show ?thesis
      by (simp add: chunks_of_Nil compress_chunks.simps [of env n] BytesIO_read_positive [OF n])
  next
    case False
    with positive_size_nat [OF n] have shorter: "length (drop (nat n) src) < length src"
      and ne: "take (nat n) src \<noteq> []"
      by auto
    from "1.prems" obtain out c1 outs1 where
      o: "compressor_compress env c (take (nat n) src) = Inr (out, c1)" and
      f: "feed_compressor env c1 (chunks_of (nat n) (drop (nat n) src)) = Inr (outs1, c')" and
      e: "outs = out @ outs1"
      by (auto simp: chunks_of_Cons [OF positive_size_nat [OF n] False] split: sum.splits)
    from "1.IH" shorter f
    have "compress_chunks env n c1 (drop (nat n) src)
            (if out \<noteq> [] then file_write dst out else dst) =
          ((if out \<noteq> [] then file_write dst out else dst) @ outs1, Inr c')"
      by blast
    with ne o e show ?thesis
      by (simp add: compress_chunks.simps [of env n _ src] BytesIO_read_positive [OF n]
                    file_write_def)
  qed
qed

lemma decompress_chunks_zero:
  "decompress_chunks env 0 d src buf = (src, Inr (buf, d))"
  by (simp add: decompress_chunks.simps [of env 0] file_read_zero)

lemma decompress_chunks_feed:
  assumes n: "positive_size n"
  shows "feed_decompressor env d (chunks_of (nat n) src) = Inr (outs, d') \<Longrightarrow>
         decompress_chunks env n d src buf = ([], Inr (buf @ outs, d'))"
proof (induction src arbitrary: d buf outs rule: length_induct)
  case (1 src)
  show ?case
  proof (cases "src = []")
    case True
    with "1.prems" show ?thesis
      by (simp add: chunks_of_Nil decompress_chunks.simps [of env n] file_read_positive [OF n])
  next
    case False
    with positive_size_nat [OF n] have shorter: "length (drop (nat n) src) < length src"
      and ne: "take (nat n) src \<noteq> []"
      by auto
    from "1.prems" obtain out d1 outs1 where
      o: "decompressor_decompress env d (take (nat n) src) = Inr (out, d1)" and
      f: "feed_decompressor env d1 (chunks_of (nat n) (drop (nat n) src)) = Inr (outs1, d')" and
      e: "outs = out @ outs1"
      by (auto simp: chunks_of_Cons [OF positive_size_nat [OF n] False] split: sum.splits)
    from "1.IH" shorter f
    have "decompress_chunks env n d1 (drop (nat n) src)
            (if out \<noteq> [] then file_write buf out else buf) =
          ([], Inr ((if out \<noteq> [] then file_write buf out else buf) @ outs1, d'))"
      by blast
    with ne o e show ?thesis
      by (simp add: decompress_chunks.simps [of env n _ src] file_read_positive [OF n]
                    file_write_def)
  qed
qed

subsection \<open>The readers on a container\<close>

lemma read_header:
  "length header = HEADER_SIZE \<Longrightarrow>
   file_read env (int HEADER_SIZE) (header @ payload) = Inr (header, payload)"
  by (simp add: file_read_header)

lemma header_okD:
  assumes "header_ok env alg lvl header"
  shows "encode_header env alg lvl = Inr header" and "length header = HEADER_SIZE"
    and "is_zpickle_data env (header @ rest)"
    and "\<exists>v l r. decode_header env (header @ rest) strict = Inr (v, alg, l, r)"
  using assms by (simp_all add: header_ok_def)

lemma loads_container:
  assumes h: "header_ok env alg lvl header"
    and p: "if alg = ''none'' then data = payload else decompress env payload alg = Inr data"
  shows "loads env (Bytes (header @ payload)) kw strict = ([], pickle_loads env data kw)"
proof -
  obtain v l r where "decode_header env (header @ payload) strict = Inr (v, alg, l, r)"
    using header_okD(4) [OF h] by blast
  with p header_okD(2) [OF h] have "loads_try env (header @ payload) strict = Inr data"
    by (simp add: loads_try_def)
  with header_okD(3) [OF h] show ?thesis
    by (simp add: loads_def loads_bytes_def)
qed

lemma load_container:
  assumes h: "header_ok env alg lvl header"
    and p: "if alg = ''none'' then data = payload else decompress env payload alg = Inr data"
  shows "load env (header @ payload) kw strict = ([], pickle_loads env data kw)"
proof -
  obtain v l r where "decode_header env header strict = Inr (v, alg, l, r)"
    using header_okD(4) [OF h, of "[]" strict] by auto
  with p have "load_try env header payload strict = ([], Inr data)"
    by (simp add: load_try_def file_read_all_def)
  with header_okD(3) [OF h, of "[]"] show ?thesis
    by (simp add: load_def read_header [OF header_okD(2) [OF h]])
qed

lemma load_streaming_container:
  assumes h: "header_ok env alg lvl header"
    and n: "positive_size chunk_size"
    and p: "if alg = ''none'' then data = payload
            else stream_decompress env alg (chunks_of (nat chunk_size) payload) = Inr data"
  shows "load_streaming env (header @ payload) kw strict chunk_size =
           ([], pickle_loads env data kw)"
proof -
  obtain v l r where d: "decode_header env header strict = Inr (v, alg, l, r)"
    using header_okD(4) [OF h, of "[]" strict] by auto
  have "\<exists>rest. load_streaming_try env header payload strict chunk_size = (rest, Inr data)"
  proof (cases "alg = ''none''")
    case True
    with p d show ?thesis
      by (simp add: load_streaming_try_def read_chunks_all [OF n])
  next
    case False
    with p obtain ds outs ds' final_chunk where
      a: "DecompressStream env alg = Inr ds" and
      b: "feed_decompressor env ds (chunks_of (nat chunk_size) payload) = Inr (outs, ds')" and
      c: "decompressor_finish env ds' = Inr final_chunk" and
      e: "data = outs @ final_chunk"
      by (auto simp: stream_decompress_def split: sum.splits)
    from decompress_chunks_feed [OF n b, of "[]"] obtain rest where
      "decompress_chunks env chunk_size ds payload [] = (rest, Inr (outs, ds'))"
      by simp
    with False d a c e show ?thesis
      by (simp add: load_streaming_try_def file_write_def)
  qed
  then obtain rest where
    "load_streaming_try env header payload strict chunk_size = (rest, Inr data)" ..
  with header_okD(3) [OF h, of "[]"] header_okD(2) [OF h]
  show ?thesis
    by (simp add: load_streaming_def read_header [OF header_okD(2) [OF h]])
qed

subsection \<open>The writers\<close>

lemma dumps_bypass:
  assumes "pickle_dumps env obj protocol kw = Inr pickled"
    and "skips_compression config pickled (or_str algorithm (config_algorithm config))"
    and "encode_header env ''none'' 0 = Inr header"
  shows "dumps env config obj protocol kw algorithm level = Inr (header @ pickled)"
  using assms by (auto simp: dumps_def skips_compression_def Let_def)

lemma dumps_compressed:
  assumes "pickle_dumps env obj protocol kw = Inr pickled"
    and "\<not> skips_compression config pickled (or_str algorithm (config_algorithm config))"
    and "compress env pickled (or_str algorithm (config_algorithm config))
           (or_int level (config_level config)) = Inr compressed"
    and "encode_header env (or_str algorithm (config_algorithm config))
           (or_int level (config_level config)) = Inr header"
  shows "dumps env config obj protocol kw algorithm level = Inr (header @ compressed)"
  using assms by (auto simp: dumps_def skips_compression_def Let_def)

lemma dump_streaming_bypass:
  assumes "pickle_dumps env obj protocol kw = Inr pickled"
    and "skips_compression config pickled (or_str algorithm (config_algorithm config))"
    and "encode_header env ''none'' 0 = Inr header"
    and "positive_size chunk_size"
  shows "dump_streaming env config obj out protocol kw algorithm level chunk_size =
           (out @ header @ pickled, Inr ())"
  using assms
  by (auto simp: dump_streaming_def skips_compression_def Let_def write_chunks_all file_write_def)

lemma dump_streaming_bypass_zero:
  assumes "pickle_dumps env obj protocol kw = Inr pickled"
    and "skips_compression config pickled (or_str algorithm (config_algorithm config))"
    and "encode_header env ''none'' 0 = Inr header"
  shows "dump_streaming env config obj out protocol kw algorithm level 0 =
           (out @ header, Inr ())"
  using assms
  by (auto simp: dump_streaming_def skips_compression_def Let_def write_chunks_zero file_write_def)

lemma dump_streaming_bypass_header:
  assumes p: "pickle_dumps env obj protocol kw = Inr pickled"
    and k: "skips_compression config pickled (or_str algorithm (config_algorithm config))"
    and h: "encode_header env ''none'' 0 = Inr header"
    and h8: "length header = HEADER_SIZE"
  shows "take HEADER_SIZE (fst (dump_streaming env config obj [] protocol kw algorithm level
                                  chunk_size)) = header"
proof -
  obtain written where
    "fst (write_chunks chunk_size pickled (file_write [] header)) = file_write [] header @ written"
    using write_chunks_appends by blast
  with p k h h8 show ?thesis
    by (auto simp: dump_streaming_def skips_compression_def Let_def file_write_def)
qed

lemma dump_streaming_compressed:
  assumes p: "pickle_dumps env obj protocol kw = Inr pickled"
    and s: "\<not> skips_compression config pickled (or_str algorithm (config_algorithm config))"
    and h: "encode_header env (or_str algorithm (config_algorithm config))
           (or_int level (config_level config)) = Inr header"
    and c: "stream_compress env (or_str algorithm (config_algorithm config))
           (or_int level (config_level config)) (chunks_of (nat chunk_size) pickled)
             = Inr compressed"
    and n: "positive_size chunk_size"
  shows "dump_streaming env config obj out protocol kw algorithm level chunk_size =
           (out @ header @ compressed, Inr ())"
proof -
  from c obtain cs outs cs' final_chunk where
    a: "CompressStream env (or_str algorithm (config_algorithm config))
          (or_int level (config_level config)) = Inr cs" and
    b: "feed_compressor env cs (chunks_of (nat chunk_size) pickled) = Inr (outs, cs')" and
    f: "compressor_finish env cs' = Inr final_chunk" and
    e: "compressed = outs @ final_chunk"
    by (auto simp: stream_compress_def split: sum.splits)
  from compress_chunks_feed [OF n b]
  have "compress_chunks env chunk_size cs pickled (out @ header) = ((out @ header) @ outs, Inr cs')" .
  with p s h a f e show ?thesis
    by (simp add: dump_streaming_def skips_compression_def Let_def file_write_def)
qed

lemma dump_streaming_compressed_zero:
  assumes "pickle_dumps env obj protocol kw = Inr pickled"
    and "\<not> skips_compression config pickled (or_str algorithm (config_algorithm config))"
    and "encode_header env (or_str algorithm (config_algorithm config))
           (or_int level (config_level config)) = Inr header"
    and "CompressStream env (or_str algorithm (config_algorithm config))
           (or_int level (config_level config)) = Inr cs"
    and "compressor_finish env cs = Inr final_chunk"
  shows "dump_streaming env config obj out protocol kw algorithm level 0 =
           (out @ header @ final_chunk, Inr ())"
  using assms
  by (simp add: dump_streaming_def skips_compression_def Let_def file_write_def
                compress_chunks_zero)

subsection \<open>The instance meets the contracts\<close>

lemma demo_env_sel:
  "pickle_dumps demo_env = demo_pickle_dumps"
  "pickle_loads demo_env = demo_pickle_loads"
  "compress demo_env = demo_compress"
  "decompress demo_env = demo_decompress"
  "CompressStream demo_env = demo_CompressStream"
  "compressor_compress demo_env = demo_compressor_compress"
  "compressor_finish demo_env = demo_compressor_finish"
  "DecompressStream demo_env = demo_DecompressStream"
  "decompressor_decompress demo_env = demo_decompressor_decompress"
  "decompressor_finish demo_env = demo_decompressor_finish"
  "encode_header demo_env = demo_encode_header"
  "decode_header demo_env = demo_decode_header"
  "is_zpickle_data demo_env = demo_is_zpickle_data"
  "read_other demo_env = demo_read_other"
  by (simp_all add: demo_env_def)

lemmas demo_defs =
  demo_env_sel demo_pickle_dumps_def demo_pickle_loads_def demo_frame_def demo_unframe_def
  demo_compress_def demo_decompress_def demo_CompressStream_def demo_compressor_compress_def
  demo_compressor_finish_def demo_DecompressStream_def demo_decompressor_decompress_def
  demo_decompressor_finish_def demo_magic_def demo_version_def demo_algorithm_id_def
  demo_algorithm_name_def demo_encode_header_def demo_is_zpickle_data_def
  demo_decode_fields_def demo_decode_header_def HEADER_SIZE_def

lemma demo_header_none: "header_ok demo_env ''none'' 0 [0x5A, 0x50, 0x4B, 0x4C, 1, 0, 0, 0]"
  by (simp add: header_ok_def demo_defs)

lemma demo_header_zstd:
  "0 \<le> lvl \<Longrightarrow> lvl \<le> 255 \<Longrightarrow>
   header_ok demo_env ''zstd'' lvl [0x5A, 0x50, 0x4B, 0x4C, 1, 1, word_of_int lvl, 0]"
  by (simp add: header_ok_def demo_defs)

lemma demo_serializes:
  "pickle_dumps demo_env obj protocol () = Inr (0x80 # obj @ [0x2E])"
  "pickle_loads demo_env (0x80 # obj @ [0x2E]) () = Inr obj"
  by (simp_all add: demo_defs)

lemma demo_oneshot: "oneshot_ok demo_env ''zstd'' lvl data (demo_frame lvl data)"
  by (simp add: oneshot_ok_def demo_defs)

lemma demo_feed_decompressor:
  "feed_decompressor demo_env d chunks = Inr ([], d @ concat chunks)"
  by (induction chunks arbitrary: d) (simp_all add: demo_env_sel demo_decompressor_decompress_def)

lemma demo_feed_compressor:
  "feed_compressor demo_env c chunks = Inr ([], (fst c, snd c @ concat chunks))"
  by (induction chunks arbitrary: c) (simp_all add: demo_env_sel demo_compressor_compress_def)

lemma demo_decodes: "decodes demo_env ''zstd'' (demo_frame lvl data) data"
  by (simp add: decodes_def chunking_def stream_decompress_def demo_feed_decompressor demo_defs)

lemma demo_stream_compress:
  "stream_compress demo_env ''zstd'' lvl chunks = Inr (demo_frame lvl (concat chunks))"
  by (simp add: stream_compress_def demo_feed_compressor demo_env_sel demo_CompressStream_def
                demo_compressor_finish_def)

lemma demo_stream: "stream_ok demo_env ''zstd'' lvl data"
  by (auto simp: stream_ok_def chunking_def demo_stream_compress demo_decodes)

subsection \<open>Writers produce containers, readers read them\<close>

lemma default_chunk_size_positive: "positive_size DEFAULT_CHUNK_SIZE"
  by (simp add: DEFAULT_CHUNK_SIZE_def positive_size_def)

lemma readers_on_container:
  assumes c: "container env data pickled"
  shows "loads env (Bytes data) lkw strict = ([], pickle_loads env pickled lkw)"
    and "load env data lkw strict = ([], pickle_loads env pickled lkw)"
    and "positive_size chunk_size \<Longrightarrow>
         load_streaming env data lkw strict chunk_size = ([], pickle_loads env pickled lkw)"
proof -
  from c obtain alg lvl header payload where
    d: "data = header @ payload" and h: "header_ok env alg lvl header" and
    p: "if alg = ''none'' then payload = pickled else decodes env alg payload pickled"
    by (auto simp: container_def)
  from p have one: "if alg = ''none'' then pickled = payload
                    else decompress env payload alg = Inr pickled"
    by (auto simp: decodes_def split: if_splits)
  show "loads env (Bytes data) lkw strict = ([], pickle_loads env pickled lkw)"
    unfolding d by (rule loads_container [OF h one])
  show "load env data lkw strict = ([], pickle_loads env pickled lkw)"
    unfolding d by (rule load_container [OF h one])
  show "load_streaming env data lkw strict chunk_size = ([], pickle_loads env pickled lkw)"
    if n: "positive_size chunk_size"
  proof -
    from p chunking_chunks_of [OF positive_size_nat [OF n], of payload]
    have "if alg = ''none'' then pickled = payload
          else stream_decompress env alg (chunks_of (nat chunk_size) payload) = Inr pickled"
      by (auto simp: decodes_def split: if_splits)
    then show ?thesis
      unfolding d by (rule load_streaming_container [OF h n])
  qed
qed

lemma dump_container:
  assumes p: "pickle_dumps env obj protocol dkw = Inr pickled"
    and c: "if skips_compression config pickled (resolved_alg config algorithm)
            then \<exists>header. header_ok env ''none'' 0 header
            else (\<exists>header. header_ok env (resolved_alg config algorithm)
                             (resolved_lvl config level) header) \<and>
                 (\<exists>compressed. compress env pickled (resolved_alg config algorithm)
                                  (resolved_lvl config level) = Inr compressed \<and>
                                decodes env (resolved_alg config algorithm) compressed pickled)"
  shows "\<exists>data. dumps env config obj protocol dkw algorithm level = Inr data \<and>
                container env data pickled"
proof (cases "skips_compression config pickled (resolved_alg config algorithm)")
  case True
  with c obtain header where h: "header_ok env ''none'' 0 header"
    by auto
  have "dumps env config obj protocol dkw algorithm level = Inr (header @ pickled)"
    by (rule dumps_bypass [OF p True header_okD(1) [OF h]])
  moreover from h have "container env (header @ pickled) pickled"
    by (auto simp: container_def)
  ultimately show ?thesis by blast
next
  case False
  with c obtain header compressed where
    h: "header_ok env (resolved_alg config algorithm) (resolved_lvl config level) header" and
    oc: "compress env pickled (resolved_alg config algorithm) (resolved_lvl config level)
           = Inr compressed" and
    od: "decodes env (resolved_alg config algorithm) compressed pickled"
    by auto
  from False have n: "resolved_alg config algorithm \<noteq> ''none''"
    by (simp add: skips_compression_def)
  have "dumps env config obj protocol dkw algorithm level = Inr (header @ compressed)"
    by (rule dumps_compressed [OF p False oc header_okD(1) [OF h]])
  moreover from h n od have "container env (header @ compressed) pickled"
    unfolding container_def by (intro exI [of _ "resolved_alg config algorithm"] exI conjI) auto
  ultimately show ?thesis by blast
qed

lemma dump_streaming_container:
  assumes p: "pickle_dumps env obj protocol dkw = Inr pickled"
    and c: "if skips_compression config pickled (resolved_alg config algorithm)
            then \<exists>header. header_ok env ''none'' 0 header
            else (\<exists>header. header_ok env (resolved_alg config algorithm)
                             (resolved_lvl config level) header) \<and>
                 stream_ok env (resolved_alg config algorithm) (resolved_lvl config level) pickled"
    and w: "positive_size chunk_size"
  shows "\<exists>data. dump_streaming env config obj [] protocol dkw algorithm level chunk_size
                  = (data, Inr ()) \<and>
                container env data pickled"
proof (cases "skips_compression config pickled (resolved_alg config algorithm)")
  case True
  with c obtain header where h: "header_ok env ''none'' 0 header"
    by auto
  have "dump_streaming env config obj [] protocol dkw algorithm level chunk_size
          = ([] @ header @ pickled, Inr ())"
    by (rule dump_streaming_bypass [OF p True header_okD(1) [OF h] w])
  moreover from h have "container env (header @ pickled) pickled"
    by (auto simp: container_def)
  ultimately show ?thesis by simp
next
  case False
  with c obtain header where
    h: "header_ok env (resolved_alg config algorithm) (resolved_lvl config level) header" and
    s: "stream_ok env (resolved_alg config algorithm) (resolved_lvl config level) pickled"
    by auto
  from False have n: "resolved_alg config algorithm \<noteq> ''none''"
    by (simp add: skips_compression_def)
  from s chunking_chunks_of [OF positive_size_nat [OF w], of pickled] obtain compressed where
    sc: "stream_compress env (resolved_alg config algorithm) (resolved_lvl config level)
           (chunks_of (nat chunk_size) pickled) = Inr compressed" and
    sd: "decodes env (resolved_alg config algorithm) compressed pickled"
    by (auto simp: stream_ok_def)
  have "dump_streaming env config obj [] protocol dkw algorithm level chunk_size
          = ([] @ header @ compressed, Inr ())"
    by (rule dump_streaming_compressed [OF p False header_okD(1) [OF h] sc w])
  moreover from h n sd have "container env (header @ compressed) pickled"
    unfolding container_def by (intro exI [of _ "resolved_alg config algorithm"] exI conjI) auto
  ultimately show ?thesis by simp
qed

lemma streaming_round_trip_positive:
  assumes p: "pickle_dumps env obj protocol dkw = Inr pickled"
    and l: "pickle_loads env pickled lkw = Inr obj"
    and c: "if skips_compression config pickled (resolved_alg config algorithm)
            then \<exists>header. header_ok env ''none'' 0 header
            else (\<exists>header. header_ok env (resolved_alg config algorithm)
                             (resolved_lvl config level) header) \<and>
                 stream_ok env (resolved_alg config algorithm) (resolved_lvl config level) pickled"
    and w: "positive_size write_chunk_size"
    and r: "positive_size read_chunk_size"
  shows "\<exists>data. dump_streaming env config obj [] protocol dkw algorithm level write_chunk_size
                  = (data, Inr ()) \<and>
                load_streaming env data lkw strict read_chunk_size = ([], Inr obj)"
proof -
  from dump_streaming_container [OF p c w] obtain data where
    d: "dump_streaming env config obj [] protocol dkw algorithm level write_chunk_size
          = (data, Inr ())" and
    cd: "container env data pickled"
    by blast
  from readers_on_container(3) [OF cd r, of lkw strict] l
  have "load_streaming env data lkw strict read_chunk_size = ([], Inr obj)"
    by simp
  with d show ?thesis by blast
qed

subsection \<open>The non-strict fallback after the payload was read\<close>

text \<open>
  When decompression fails in non-strict mode, \<^verbatim>\<open>loads\<close> retries on its whole argument.
  \<^verbatim>\<open>load\<close> has read the payload before \<^verbatim>\<open>decompress\<close> raises, and
  \<^verbatim>\<open>load_streaming\<close> has read it all before \<^verbatim>\<open>finish\<close> raises: both retry on the
  header alone.
\<close>

lemma loads_fallback_after_decompress_error:
  assumes "is_zpickle_data env data"
    and "decode_header env data False = Inr (v, alg, l, r)"
    and "alg \<noteq> ''none''"
    and "decompress env (drop HEADER_SIZE data) alg = Inl e"
  shows "loads env (Bytes data) lkw False = ([fallback_warning e], pickle_loads env data lkw)"
  using assms by (simp add: loads_def loads_bytes_def loads_try_def)

lemma load_fallback_after_decompress_error:
  assumes "length header = HEADER_SIZE"
    and "is_zpickle_data env header"
    and "decode_header env header False = Inr (v, alg, l, r)"
    and "alg \<noteq> ''none''"
    and "decompress env payload alg = Inl e"
  shows "load env (header @ payload) lkw False =
           ([fallback_warning e], pickle_loads env header lkw)"
  using assms by (simp add: load_def load_try_def read_header file_read_all_def)

lemma load_streaming_fallback_after_finish_error:
  assumes "length header = HEADER_SIZE"
    and "is_zpickle_data env header"
    and "decode_header env header False = Inr (v, alg, l, r)"
    and "alg \<noteq> ''none''"
    and "DecompressStream env alg = Inr ds"
    and "feed_decompressor env ds (chunks_of (nat chunk_size) payload) = Inr (outs, ds')"
    and "decompressor_finish env ds' = Inl e"
    and "positive_size chunk_size"
  shows "load_streaming env (header @ payload) lkw False chunk_size =
           ([fallback_warning e], pickle_loads env header lkw)"
  using assms
  by (simp add: load_streaming_def load_streaming_try_def read_header file_read_all_def
                decompress_chunks_feed)

subsection \<open>Facts of the instance\<close>

lemma demo_skips_small:
  "skips_compression demo_config [0x80, 0x2E] alg"
  by (simp add: skips_compression_def demo_config_def)

lemma demo_not_skips:
  "\<not> skips_compression demo_config (0x80 # [1, 2, 3, 4, 5] @ [0x2E]) ''zstd''"
  by (simp add: skips_compression_def demo_config_def)

lemma echo_env_sel:
  "pickle_dumps echo_env = demo_pickle_dumps"
  "pickle_loads echo_env = (\<lambda>data kw. Inr data)"
  "compress echo_env = demo_compress"
  "decompress echo_env = demo_decompress"
  "CompressStream echo_env = demo_CompressStream"
  "compressor_compress echo_env = demo_compressor_compress"
  "compressor_finish echo_env = demo_compressor_finish"
  "DecompressStream echo_env = demo_DecompressStream"
  "decompressor_decompress echo_env = demo_decompressor_decompress"
  "decompressor_finish echo_env = demo_decompressor_finish"
  "encode_header echo_env = demo_encode_header"
  "decode_header echo_env = demo_decode_header"
  "is_zpickle_data echo_env = demo_is_zpickle_data"
  "read_other echo_env = demo_read_other"
  by (simp_all add: echo_env_def demo_env_def)

lemma demo_pickled_5:
  "pickle_dumps demo_env [1, 2, 3, 4, 5] None () = Inr [0x80, 1, 2, 3, 4, 5, 0x2E]"
  by (simp add: demo_env_sel demo_pickle_dumps_def)

lemma demo_not_skips_default:
  "\<not> skips_compression demo_config [0x80, 1, 2, 3, 4, 5, 0x2E] (resolved_alg demo_config None)"
  by (simp add: skips_compression_def demo_config_def or_str_def)

lemma demo_resolved_default:
  "resolved_alg demo_config None = ''zstd''" "resolved_lvl demo_config None = 3"
  by (simp_all add: demo_config_def or_str_def or_int_def)

lemma demo_pickled_empty: "pickle_dumps demo_env [] None () = Inr [0x80, 0x2E]"
  by (simp add: demo_env_sel demo_pickle_dumps_def)

lemma demo_encode_none: "encode_header demo_env ''none'' 0 = Inr [0x5A, 0x50, 0x4B, 0x4C, 1, 0, 0, 0]"
  by (simp add: demo_defs)

lemma demo_encode_zstd_3:
  "encode_header demo_env ''zstd'' 3 = Inr [0x5A, 0x50, 0x4B, 0x4C, 1, 1, 3, 0]"
  by (simp add: demo_defs)

lemma demo_dump_streaming_default:
  assumes n: "positive_size chunk_size"
  shows "dump_streaming demo_env demo_config [1, 2, 3, 4, 5] [] None () None None chunk_size
     = ([0x5A, 0x50, 0x4B, 0x4C, 1, 1, 3, 0] @ demo_frame 3 [0x80, 1, 2, 3, 4, 5, 0x2E], Inr ())"
proof -
  have "dump_streaming demo_env demo_config [1, 2, 3, 4, 5] [] None () None None chunk_size
     = ([] @ [0x5A, 0x50, 0x4B, 0x4C, 1, 1, 3, 0] @
        demo_frame 3 (concat (chunks_of (nat chunk_size) [0x80, 1, 2, 3, 4, 5, 0x2E])), Inr ())"
    by (rule dump_streaming_compressed [OF demo_pickled_5 demo_not_skips_default _ _ n])
       (simp_all add: demo_resolved_default demo_encode_zstd_3 demo_stream_compress)
  then show ?thesis
    by (simp add: concat_chunks_of [OF positive_size_nat [OF n]])
qed

lemma demo_dump_streaming_default_zero:
  "dump_streaming demo_env demo_config [1, 2, 3, 4, 5] [] None () None None 0
     = ([0x5A, 0x50, 0x4B, 0x4C, 1, 1, 3, 0] @ demo_frame 3 [], Inr ())"
proof -
  have "dump_streaming demo_env demo_config [1, 2, 3, 4, 5] [] None () None None 0
     = ([] @ [0x5A, 0x50, 0x4B, 0x4C, 1, 1, 3, 0] @ demo_frame 3 [], Inr ())"
    by (rule dump_streaming_compressed_zero
              [OF demo_pickled_5 demo_not_skips_default, where cs = "(3, [])"])
       (simp_all add: demo_resolved_default demo_defs)
  then show ?thesis by simp
qed

lemmas echo_defs =
  echo_env_sel demo_frame_def demo_unframe_def
  demo_compress_def demo_decompress_def demo_CompressStream_def demo_compressor_compress_def
  demo_compressor_finish_def demo_DecompressStream_def demo_decompressor_decompress_def
  demo_decompressor_finish_def demo_magic_def demo_version_def demo_algorithm_id_def
  demo_algorithm_name_def demo_encode_header_def demo_is_zpickle_data_def
  demo_decode_fields_def demo_decode_header_def HEADER_SIZE_def

lemma echo_feed_decompressor:
  "feed_decompressor echo_env d chunks = Inr ([], d @ concat chunks)"
  by (induction chunks arbitrary: d) (simp_all add: echo_env_sel demo_decompressor_decompress_def)

lemma demo_compress_zstd_3:
  "compress demo_env data ''zstd'' 3 = Inr (demo_frame 3 data)"
  by (simp add: demo_env_sel demo_compress_def)

section \<open>The claims\<close>

text \<open>
  C1. The one-shot round trip. Let \<open>obj\<close> be serializable: \<^verbatim>\<open>pickle.dumps\<close> returns
  \<open>pickled\<close>, from which \<^verbatim>\<open>pickle.loads\<close> returns \<open>obj\<close>. Let the algorithm and the
  level that the call resolves to be supported: when the writer compresses, the header
  codec handles their header and \<^verbatim>\<open>decompress\<close> inverts \<^verbatim>\<open>compress\<close> on \<open>pickled\<close>;
  when it does not, the header codec handles the header of \<^verbatim>\<open>none\<close>. Then \<^verbatim>\<open>dumps\<close>
  returns a container from which \<^verbatim>\<open>loads\<close> returns \<open>obj\<close> without a warning, and
  \<^verbatim>\<open>dump\<close> writes to an empty stream a container from which \<^verbatim>\<open>load\<close> returns \<open>obj\<close>,
  in strict and in non-strict mode. The resolved level is \<^verbatim>\<open>level or config.level\<close>,
  which is the argument \<open>l\<close> itself for every \<open>l\<close> other than 0.
\<close>

theorem one_shot_round_trip:
  assumes p: "pickle_dumps env obj protocol dkw = Inr pickled"
    and l: "pickle_loads env pickled lkw = Inr obj"
    and c: "if skips_compression config pickled (or_str algorithm (config_algorithm config))
         then \<exists>header. header_ok env ''none'' 0 header
         else (\<exists>header. header_ok env (or_str algorithm (config_algorithm config))
                          (or_int level (config_level config)) header) \<and>
              (\<exists>compressed. oneshot_ok env (or_str algorithm (config_algorithm config))
                          (or_int level (config_level config)) pickled compressed)"
  shows "\<exists>data. dumps env config obj protocol dkw algorithm level = Inr data \<and>
                loads env (Bytes data) lkw strict = ([], Inr obj) \<and>
                dump env config obj [] protocol dkw algorithm level = (data, Inr ()) \<and>
                load env data lkw strict = ([], Inr obj)"
proof (cases "skips_compression config pickled (or_str algorithm (config_algorithm config))")
  case True
  with c obtain header where h: "header_ok env ''none'' 0 header"
    by auto
  have d: "dumps env config obj protocol dkw algorithm level = Inr (header @ pickled)"
    by (rule dumps_bypass [OF p True header_okD(1) [OF h]])
  have "loads env (Bytes (header @ pickled)) lkw strict = ([], pickle_loads env pickled lkw)"
    by (rule loads_container [OF h]) simp
  moreover
  have "load env (header @ pickled) lkw strict = ([], pickle_loads env pickled lkw)"
    by (rule load_container [OF h]) simp
  ultimately show ?thesis
    using d l by (simp add: dump_def file_write_def)
next
  case False
  with c obtain header compressed where
    h: "header_ok env (or_str algorithm (config_algorithm config))
          (or_int level (config_level config)) header" and
    o: "oneshot_ok env (or_str algorithm (config_algorithm config))
          (or_int level (config_level config)) pickled compressed"
    by auto
  from False have n: "or_str algorithm (config_algorithm config) \<noteq> ''none''"
    by (simp add: skips_compression_def)
  from o have
    oc: "compress env pickled (or_str algorithm (config_algorithm config))
           (or_int level (config_level config)) = Inr compressed" and
    od: "decompress env compressed (or_str algorithm (config_algorithm config)) = Inr pickled"
    by (simp_all add: oneshot_ok_def)
  have d: "dumps env config obj protocol dkw algorithm level = Inr (header @ compressed)"
    by (rule dumps_compressed [OF p False oc header_okD(1) [OF h]])
  have "loads env (Bytes (header @ compressed)) lkw strict = ([], pickle_loads env pickled lkw)"
    by (rule loads_container [OF h]) (simp add: n od)
  moreover
  have "load env (header @ compressed) lkw strict = ([], pickle_loads env pickled lkw)"
    by (rule load_container [OF h]) (simp add: n od)
  ultimately show ?thesis
    using d l by (simp add: dump_def file_write_def)
qed

text \<open>
  The round trip at the instance: the object \<^verbatim>\<open>b"\x01\x02\x03\x04\x05"\<close>, the algorithm
  \<^verbatim>\<open>zstd\<close> at level 5, a configuration with \<^verbatim>\<open>min_size = 4\<close>.
\<close>

theorem one_shot_round_trip_witness:
  "pickle_dumps demo_env [1, 2, 3, 4, 5] None () = Inr (0x80 # [1, 2, 3, 4, 5] @ [0x2E]) \<and>
   pickle_loads demo_env (0x80 # [1, 2, 3, 4, 5] @ [0x2E]) () = Inr [1, 2, 3, 4, 5] \<and>
   (\<exists>data. dumps demo_env demo_config [1, 2, 3, 4, 5] None () (Some ''zstd'') (Some 5) = Inr data \<and>
           loads demo_env (Bytes data) () True = ([], Inr [1, 2, 3, 4, 5]) \<and>
           dump demo_env demo_config [1, 2, 3, 4, 5] [] None () (Some ''zstd'') (Some 5)
             = (data, Inr ()) \<and>
           load demo_env data () True = ([], Inr [1, 2, 3, 4, 5]))"
proof -
  have c: "if skips_compression demo_config (0x80 # [1, 2, 3, 4, 5] @ [0x2E])
                (or_str (Some ''zstd'') (config_algorithm demo_config))
         then \<exists>header. header_ok demo_env ''none'' 0 header
         else (\<exists>header. header_ok demo_env (or_str (Some ''zstd'') (config_algorithm demo_config))
                          (or_int (Some 5) (config_level demo_config)) header) \<and>
              (\<exists>compressed. oneshot_ok demo_env (or_str (Some ''zstd'') (config_algorithm demo_config))
                          (or_int (Some 5) (config_level demo_config))
                          (0x80 # [1, 2, 3, 4, 5] @ [0x2E]) compressed)"
    using demo_not_skips demo_header_zstd [of 5] demo_oneshot [of 5]
    by (auto simp: or_str_def or_int_def)
  show ?thesis
    using one_shot_round_trip [OF demo_serializes(1) [where protocol = None] demo_serializes(2) c,
        where strict = True]
      demo_serializes(1) [of "[1, 2, 3, 4, 5]" None] demo_serializes(2) [of "[1, 2, 3, 4, 5]"]
    by simp
qed

text \<open>
  C2. The small-payload bypass. Let the pickled form of \<open>obj\<close> be shorter than
  \<^verbatim>\<open>config.min_size\<close>, and let the header of \<^verbatim>\<open>none\<close> be 8 bytes with 0 at offset
  5. Then, for every requested algorithm and level, \<^verbatim>\<open>dumps\<close> returns, and
  \<^verbatim>\<open>dump_streaming\<close> writes, that header followed by the pickled bytes verbatim, with
  the default chunk size and with every chunk size from 1 up to the largest that
  \<^verbatim>\<open>BytesIO.read\<close> accepts. The decision itself depends on no chunk size at all: for
  every integer \<open>any_size\<close> the first 8 bytes that \<^verbatim>\<open>dump_streaming\<close> writes are that
  header.
\<close>

theorem small_payload_bypass:
  assumes p: "pickle_dumps env obj protocol kw = Inr pickled"
    and s: "int (length pickled) < config_min_size config"
    and h: "encode_header env ''none'' 0 = Inr header"
    and h8: "length header = HEADER_SIZE"
    and h5: "header ! 5 = 0"
    and n0: "0 < chunk_size"
    and n1: "chunk_size < 2 ^ 63"
  shows "dumps env config obj protocol kw algorithm level = Inr (header @ pickled) \<and>
         dump_streaming env config obj [] protocol kw algorithm level DEFAULT_CHUNK_SIZE
           = (header @ pickled, Inr ()) \<and>
         dump_streaming env config obj [] protocol kw algorithm level chunk_size
           = (header @ pickled, Inr ()) \<and>
         take HEADER_SIZE
           (fst (dump_streaming env config obj [] protocol kw algorithm level any_size))
           = header \<and>
         (header @ pickled) ! 5 = 0 \<and> drop HEADER_SIZE (header @ pickled) = pickled"
proof -
  from s have k: "skips_compression config pickled (resolved_alg config algorithm)"
    by (simp add: skips_compression_def)
  from n0 n1 have n: "positive_size chunk_size"
    by (simp add: positive_size_def)
  have "dumps env config obj protocol kw algorithm level = Inr (header @ pickled)"
    by (rule dumps_bypass [OF p k h])
  moreover
  have "dump_streaming env config obj [] protocol kw algorithm level DEFAULT_CHUNK_SIZE
          = ([] @ header @ pickled, Inr ())"
    by (rule dump_streaming_bypass [OF p k h default_chunk_size_positive])
  moreover
  have "dump_streaming env config obj [] protocol kw algorithm level chunk_size
          = ([] @ header @ pickled, Inr ())"
    by (rule dump_streaming_bypass [OF p k h n])
  moreover
  have "take HEADER_SIZE
          (fst (dump_streaming env config obj [] protocol kw algorithm level any_size))
          = header"
    by (rule dump_streaming_bypass_header [OF p k h h8])
  moreover from h8 h5 have "(header @ pickled) ! 5 = 0"
    by (simp add: nth_append HEADER_SIZE_def)
  ultimately show ?thesis
    using h8 by simp
qed

text \<open>
  The bypass at the instance: the empty bytes object, whose pickle is 2 bytes, under
  \<^verbatim>\<open>min_size = 4\<close>, with \<^verbatim>\<open>zstd\<close> at level 9 requested; chunks of 1024 bytes, and
  for the header any size, here 0.
\<close>

theorem small_payload_bypass_witness:
  "int (length [0x80, 0x2E :: byte]) < config_min_size demo_config \<and>
   dumps demo_env demo_config [] None () (Some ''zstd'') (Some 9)
     = Inr [0x5A, 0x50, 0x4B, 0x4C, 1, 0, 0, 0, 0x80, 0x2E] \<and>
   dump_streaming demo_env demo_config [] [] None () (Some ''zstd'') (Some 9) DEFAULT_CHUNK_SIZE
     = ([0x5A, 0x50, 0x4B, 0x4C, 1, 0, 0, 0, 0x80, 0x2E], Inr ()) \<and>
   dump_streaming demo_env demo_config [] [] None () (Some ''zstd'') (Some 9) 1024
     = ([0x5A, 0x50, 0x4B, 0x4C, 1, 0, 0, 0, 0x80, 0x2E], Inr ()) \<and>
   take HEADER_SIZE
     (fst (dump_streaming demo_env demo_config [] [] None () (Some ''zstd'') (Some 9) 0))
     = [0x5A, 0x50, 0x4B, 0x4C, 1, 0, 0, 0]"
proof -
  have s: "int (length [0x80, 0x2E :: byte]) < config_min_size demo_config"
    by (simp add: demo_config_def)
  have h8: "length [0x5A, 0x50, 0x4B, 0x4C, 1, 0, 0, 0 :: byte] = HEADER_SIZE"
    by (simp add: HEADER_SIZE_def)
  have h5: "[0x5A, 0x50, 0x4B, 0x4C, 1, 0, 0, 0 :: byte] ! 5 = 0"
    by simp
  have n0: "(0 :: int) < 1024" and n1: "(1024 :: int) < 2 ^ 63"
    by simp_all
  show ?thesis
    using small_payload_bypass [OF demo_pickled_empty s demo_encode_none h8 h5 n0 n1,
        where algorithm = "Some ''zstd''" and level = "Some 9" and any_size = 0] s
    by simp
qed

text \<open>
  C3. The non-strict fallback after a failed decompression, at a stream of 11 bytes:
  the header of \<^verbatim>\<open>zstd\<close> at level 3 followed by 3 bytes that are no compressed frame.
  The deserializer of \<open>echo_env\<close> returns the bytes it is given. \<^verbatim>\<open>loads\<close> warns and
  retries on the 11 bytes of the input. \<^verbatim>\<open>load\<close> and \<^verbatim>\<open>load_streaming\<close> warn and retry
  on the 8 bytes of the header alone: the payload was consumed inside the \<^verbatim>\<open>try\<close>
  block, and the \<^verbatim>\<open>file.read()\<close> of the handler returns nothing.
\<close>

theorem fallback_retries_header_only:
  "loads echo_env (Bytes [0x5A, 0x50, 0x4B, 0x4C, 1, 1, 3, 0, 0x80, 1, 0x2E]) () False
     = ([fallback_warning (CodecError ''bad frame'')],
        Inr [0x5A, 0x50, 0x4B, 0x4C, 1, 1, 3, 0, 0x80, 1, 0x2E]) \<and>
   load echo_env [0x5A, 0x50, 0x4B, 0x4C, 1, 1, 3, 0, 0x80, 1, 0x2E] () False
     = ([fallback_warning (CodecError ''bad frame'')],
        Inr [0x5A, 0x50, 0x4B, 0x4C, 1, 1, 3, 0]) \<and>
   load_streaming echo_env [0x5A, 0x50, 0x4B, 0x4C, 1, 1, 3, 0, 0x80, 1, 0x2E] () False
       DEFAULT_CHUNK_SIZE
     = ([fallback_warning (CodecError ''bad frame'')],
        Inr [0x5A, 0x50, 0x4B, 0x4C, 1, 1, 3, 0])"
proof -
  have h8: "length [0x5A, 0x50, 0x4B, 0x4C, 1, 1, 3, 0 :: byte] = HEADER_SIZE"
    by (simp add: HEADER_SIZE_def)
  have z: "is_zpickle_data echo_env [0x5A, 0x50, 0x4B, 0x4C, 1, 1, 3, 0]"
    by (simp add: echo_defs)
  have dh: "decode_header echo_env [0x5A, 0x50, 0x4B, 0x4C, 1, 1, 3, 0] False
              = Inr (1, ''zstd'', 3, 0)"
    by (simp add: echo_defs)
  have n: "''zstd'' \<noteq> ''none''"
    by simp
  have a: "loads echo_env (Bytes [0x5A, 0x50, 0x4B, 0x4C, 1, 1, 3, 0, 0x80, 1, 0x2E]) () False
     = ([fallback_warning (CodecError ''bad frame'')],
        pickle_loads echo_env [0x5A, 0x50, 0x4B, 0x4C, 1, 1, 3, 0, 0x80, 1, 0x2E] ())"
    by (rule loads_fallback_after_decompress_error [where v = 1 and alg = "''zstd''" and l = 3 and r = 0])
       (simp_all add: echo_defs)
  have b: "load echo_env ([0x5A, 0x50, 0x4B, 0x4C, 1, 1, 3, 0] @ [0x80, 1, 0x2E]) () False
     = ([fallback_warning (CodecError ''bad frame'')],
        pickle_loads echo_env [0x5A, 0x50, 0x4B, 0x4C, 1, 1, 3, 0] ())"
    by (rule load_fallback_after_decompress_error [OF h8 z dh n]) (simp add: echo_defs)
  have ds: "DecompressStream echo_env ''zstd'' = Inr []"
    by (simp add: echo_defs)
  have f: "feed_decompressor echo_env [] (chunks_of (nat DEFAULT_CHUNK_SIZE) [0x80, 1, 0x2E])
             = Inr ([], [0x80, 1, 0x2E])"
    by (simp add: echo_feed_decompressor
                  concat_chunks_of [OF positive_size_nat [OF default_chunk_size_positive]])
  have fin: "decompressor_finish echo_env [0x80, 1, 0x2E] = Inl (CodecError ''bad frame'')"
    by (simp add: echo_defs)
  have c: "load_streaming echo_env ([0x5A, 0x50, 0x4B, 0x4C, 1, 1, 3, 0] @ [0x80, 1, 0x2E]) ()
             False DEFAULT_CHUNK_SIZE
     = ([fallback_warning (CodecError ''bad frame'')],
        pickle_loads echo_env [0x5A, 0x50, 0x4B, 0x4C, 1, 1, 3, 0] ())"
    by (rule load_streaming_fallback_after_finish_error
              [OF h8 z dh n ds f fin default_chunk_size_positive])
  from a b c show ?thesis
    by (simp add: echo_env_sel)
qed

text \<open>
  C4. The level 0 passed explicitly, under a configuration whose level is 3:
  \<^verbatim>\<open>level or config.level\<close> is 3, and \<^verbatim>\<open>dumps\<close>, \<^verbatim>\<open>dump\<close> and \<^verbatim>\<open>dump_streaming\<close>
  write the level 3 in the header (offset 6) and compress at level 3 (the second byte of
  the instance's frame).
\<close>

theorem level_zero_is_not_used:
  "config_level demo_config = 3 \<and>
   dumps demo_env demo_config [1, 2, 3, 4, 5] None () (Some ''zstd'') (Some 0)
     = Inr [0x5A, 0x50, 0x4B, 0x4C, 1, 1, 3, 0, 0xFD, 3, 0x2E, 5, 4, 3, 2, 1, 0x80] \<and>
   dump demo_env demo_config [1, 2, 3, 4, 5] [] None () (Some ''zstd'') (Some 0)
     = ([0x5A, 0x50, 0x4B, 0x4C, 1, 1, 3, 0, 0xFD, 3, 0x2E, 5, 4, 3, 2, 1, 0x80], Inr ()) \<and>
   dump_streaming demo_env demo_config [1, 2, 3, 4, 5] [] None () (Some ''zstd'') (Some 0)
       DEFAULT_CHUNK_SIZE
     = ([0x5A, 0x50, 0x4B, 0x4C, 1, 1, 3, 0, 0xFD, 3, 0x2E, 5, 4, 3, 2, 1, 0x80], Inr ())"
proof -
  have r: "resolved_alg demo_config (Some ''zstd'') = ''zstd''"
    "resolved_lvl demo_config (Some 0) = 3"
    by (simp_all add: or_str_def or_int_def demo_config_def)
  have k: "\<not> skips_compression demo_config [0x80, 1, 2, 3, 4, 5, 0x2E]
               (resolved_alg demo_config (Some ''zstd''))"
    by (simp add: skips_compression_def demo_config_def or_str_def)
  have a: "dumps demo_env demo_config [1, 2, 3, 4, 5] None () (Some ''zstd'') (Some 0)
             = Inr ([0x5A, 0x50, 0x4B, 0x4C, 1, 1, 3, 0] @ demo_frame 3 [0x80, 1, 2, 3, 4, 5, 0x2E])"
    by (rule dumps_compressed [OF demo_pickled_5 k])
       (simp_all add: r demo_compress_zstd_3 demo_encode_zstd_3)
  have b: "dump_streaming demo_env demo_config [1, 2, 3, 4, 5] [] None () (Some ''zstd'') (Some 0)
             DEFAULT_CHUNK_SIZE
           = ([] @ [0x5A, 0x50, 0x4B, 0x4C, 1, 1, 3, 0] @
              demo_frame 3
                (concat (chunks_of (nat DEFAULT_CHUNK_SIZE) [0x80, 1, 2, 3, 4, 5, 0x2E])),
              Inr ())"
    by (rule dump_streaming_compressed [OF demo_pickled_5 k _ _ default_chunk_size_positive])
       (simp_all add: r demo_encode_zstd_3 demo_stream_compress)
  from a b show ?thesis
    by (simp add: dump_def file_write_def demo_frame_def demo_config_def
                  concat_chunks_of [OF positive_size_nat [OF default_chunk_size_positive]])
qed

text \<open>
  C5. Cross-mode equivalence, with the default chunk size on both sides. Let
  \<^verbatim>\<open>pickle.dumps\<close> return \<open>pickled\<close> for \<open>obj\<close>, and let the codec be interoperable at
  the resolved algorithm and level: from the output of \<^verbatim>\<open>compress\<close>, and from the
  output of the incremental compressor however its input is cut, both \<^verbatim>\<open>decompress\<close>
  and the incremental decompressor recover \<open>pickled\<close>. Then \<^verbatim>\<open>dump\<close> and
  \<^verbatim>\<open>dump_streaming\<close> return normally, \<^verbatim>\<open>load\<close> and \<^verbatim>\<open>load_streaming\<close> agree on the
  output of each, and all four results are what \<^verbatim>\<open>pickle.loads\<close> returns on \<open>pickled\<close>.
\<close>

theorem cross_mode_equivalence:
  assumes p: "pickle_dumps env obj protocol dkw = Inr pickled"
    and c: "if skips_compression config pickled (resolved_alg config algorithm)
            then \<exists>header. header_ok env ''none'' 0 header
            else (\<exists>header. header_ok env (resolved_alg config algorithm)
                             (resolved_lvl config level) header) \<and>
                 (\<exists>compressed. compress env pickled (resolved_alg config algorithm)
                                  (resolved_lvl config level) = Inr compressed \<and>
                                decodes env (resolved_alg config algorithm) compressed pickled) \<and>
                 stream_ok env (resolved_alg config algorithm) (resolved_lvl config level) pickled"
  shows "\<exists>f g. dump env config obj [] protocol dkw algorithm level = (f, Inr ()) \<and>
               dump_streaming env config obj [] protocol dkw algorithm level DEFAULT_CHUNK_SIZE
                 = (g, Inr ()) \<and>
               load env f lkw strict = load_streaming env f lkw strict DEFAULT_CHUNK_SIZE \<and>
               load_streaming env g lkw strict DEFAULT_CHUNK_SIZE = load env g lkw strict \<and>
               load env f lkw strict = ([], pickle_loads env pickled lkw) \<and>
               load env g lkw strict = ([], pickle_loads env pickled lkw)"
proof -
  from c have c1:
    "if skips_compression config pickled (resolved_alg config algorithm)
     then \<exists>header. header_ok env ''none'' 0 header
     else (\<exists>header. header_ok env (resolved_alg config algorithm)
                      (resolved_lvl config level) header) \<and>
          (\<exists>compressed. compress env pickled (resolved_alg config algorithm)
                           (resolved_lvl config level) = Inr compressed \<and>
                         decodes env (resolved_alg config algorithm) compressed pickled)"
    by (simp split: if_splits)
  from c have c2:
    "if skips_compression config pickled (resolved_alg config algorithm)
     then \<exists>header. header_ok env ''none'' 0 header
     else (\<exists>header. header_ok env (resolved_alg config algorithm)
                      (resolved_lvl config level) header) \<and>
          stream_ok env (resolved_alg config algorithm) (resolved_lvl config level) pickled"
    by (simp split: if_splits)
  from dump_container [OF p c1] obtain f where
    f: "dumps env config obj protocol dkw algorithm level = Inr f" and
    cf: "container env f pickled"
    by blast
  from dump_streaming_container [OF p c2 default_chunk_size_positive] obtain g where
    g: "dump_streaming env config obj [] protocol dkw algorithm level DEFAULT_CHUNK_SIZE
          = (g, Inr ())" and
    cg: "container env g pickled"
    by blast
  from f have "dump env config obj [] protocol dkw algorithm level = (f, Inr ())"
    by (simp add: dump_def file_write_def)
  with g
    readers_on_container(2) [OF cf, of lkw strict]
    readers_on_container(3) [OF cf default_chunk_size_positive, of lkw strict]
    readers_on_container(2) [OF cg, of lkw strict]
    readers_on_container(3) [OF cg default_chunk_size_positive, of lkw strict]
  show ?thesis by simp
qed

text \<open>
  Cross-mode equivalence at the instance, with the defaults of the configuration
  (\<^verbatim>\<open>zstd\<close>, level 3).
\<close>

theorem cross_mode_equivalence_witness:
  "\<exists>f g. dump demo_env demo_config [1, 2, 3, 4, 5] [] None () None None = (f, Inr ()) \<and>
         dump_streaming demo_env demo_config [1, 2, 3, 4, 5] [] None () None None DEFAULT_CHUNK_SIZE
           = (g, Inr ()) \<and>
         load demo_env f () True = load_streaming demo_env f () True DEFAULT_CHUNK_SIZE \<and>
         load_streaming demo_env g () True DEFAULT_CHUNK_SIZE = load demo_env g () True \<and>
         load demo_env f () True = ([], Inr [1, 2, 3, 4, 5]) \<and>
         load demo_env g () True = ([], Inr [1, 2, 3, 4, 5])"
proof -
  have c: "if skips_compression demo_config [0x80, 1, 2, 3, 4, 5, 0x2E] (resolved_alg demo_config None)
           then \<exists>header. header_ok demo_env ''none'' 0 header
           else (\<exists>header. header_ok demo_env (resolved_alg demo_config None)
                            (resolved_lvl demo_config None) header) \<and>
                (\<exists>compressed. compress demo_env [0x80, 1, 2, 3, 4, 5, 0x2E]
                                 (resolved_alg demo_config None)
                                 (resolved_lvl demo_config None) = Inr compressed \<and>
                               decodes demo_env (resolved_alg demo_config None) compressed
                                 [0x80, 1, 2, 3, 4, 5, 0x2E]) \<and>
                stream_ok demo_env (resolved_alg demo_config None) (resolved_lvl demo_config None)
                  [0x80, 1, 2, 3, 4, 5, 0x2E]"
    using demo_not_skips_default demo_header_zstd [of 3] demo_oneshot [of 3]
      demo_decodes [of 3] demo_stream [of 3]
    by (auto simp: demo_resolved_default oneshot_ok_def)
  have l: "pickle_loads demo_env [0x80, 1, 2, 3, 4, 5, 0x2E] () = Inr [1, 2, 3, 4, 5]"
    by (simp add: demo_env_sel demo_pickle_loads_def)
  show ?thesis
    using cross_mode_equivalence [OF demo_pickled_5 c, where lkw = "()" and strict = True]
    by (simp add: l)
qed

text \<open>
  C6. Foreign data. Let \<open>pickled\<close> be the output of the serializer alone for \<open>obj\<close>,
  and let it not match the container marker, neither as a whole (the test of
  \<^verbatim>\<open>loads\<close>) nor cut to its first 8 bytes (the test of \<^verbatim>\<open>load\<close> and
  \<^verbatim>\<open>load_streaming\<close>). Then the three readers return \<open>obj\<close> and issue no warning, in
  both modes and for every chunk size: the bytes read for the detection are put back in
  front of the rest, and \<^verbatim>\<open>pickle.loads\<close> receives \<open>pickled\<close> whole.
\<close>

theorem foreign_data:
  assumes "pickle_dumps env obj protocol dkw = Inr pickled"
    and "pickle_loads env pickled lkw = Inr obj"
    and "\<not> is_zpickle_data env pickled"
    and "\<not> is_zpickle_data env (take HEADER_SIZE pickled)"
  shows "loads env (Bytes pickled) lkw strict = ([], Inr obj) \<and>
         load env pickled lkw strict = ([], Inr obj) \<and>
         load_streaming env pickled lkw strict chunk_size = ([], Inr obj)"
  using assms
  by (simp add: loads_def loads_bytes_def load_def load_streaming_def file_read_header
                file_read_all_def)

text \<open>
  Foreign data at the instance: a pickle of 9 bytes, longer than a header.
\<close>

theorem foreign_data_witness:
  "pickle_dumps demo_env [7, 8, 9, 10, 11, 12, 13] None ()
     = Inr (0x80 # [7, 8, 9, 10, 11, 12, 13] @ [0x2E]) \<and>
   \<not> is_zpickle_data demo_env (0x80 # [7, 8, 9, 10, 11, 12, 13] @ [0x2E]) \<and>
   \<not> is_zpickle_data demo_env (take HEADER_SIZE (0x80 # [7, 8, 9, 10, 11, 12, 13] @ [0x2E])) \<and>
   loads demo_env (Bytes (0x80 # [7, 8, 9, 10, 11, 12, 13] @ [0x2E])) () True
     = ([], Inr [7, 8, 9, 10, 11, 12, 13]) \<and>
   load demo_env (0x80 # [7, 8, 9, 10, 11, 12, 13] @ [0x2E]) () True
     = ([], Inr [7, 8, 9, 10, 11, 12, 13]) \<and>
   load_streaming demo_env (0x80 # [7, 8, 9, 10, 11, 12, 13] @ [0x2E]) () True DEFAULT_CHUNK_SIZE
     = ([], Inr [7, 8, 9, 10, 11, 12, 13])"
proof -
  have a: "\<not> is_zpickle_data demo_env (0x80 # [7, 8, 9, 10, 11, 12, 13] @ [0x2E])"
    by (simp add: demo_env_sel demo_is_zpickle_data_def demo_magic_def)
  have b: "\<not> is_zpickle_data demo_env (take HEADER_SIZE (0x80 # [7, 8, 9, 10, 11, 12, 13] @ [0x2E]))"
    by (simp add: demo_env_sel demo_is_zpickle_data_def demo_magic_def HEADER_SIZE_def)
  show ?thesis
    using foreign_data [OF demo_serializes(1) [where protocol = None] demo_serializes(2) a b,
        where strict = True and chunk_size = DEFAULT_CHUNK_SIZE]
      a b demo_serializes(1) [of "[7, 8, 9, 10, 11, 12, 13]" None]
    by simp
qed

text \<open>
  C7. A stream of fewer than 8 bytes. \<^verbatim>\<open>load_streaming\<close> hands to \<^verbatim>\<open>pickle.loads\<close> the
  bytes it read for the header followed by the rest of the stream, which is the whole
  input, and returns what \<^verbatim>\<open>pickle.loads\<close> returns: the header codec is not called,
  so no format error is raised, and no warning is issued.
\<close>

theorem short_stream_is_foreign:
  "length data < HEADER_SIZE \<Longrightarrow>
   load_streaming env data lkw strict chunk_size = ([], pickle_loads env data lkw)"
  by (simp add: load_streaming_def file_read_header file_read_all_def)

text \<open>
  A short stream at the instance: the pickle of the empty bytes object, 2 bytes.
\<close>

theorem short_stream_is_foreign_witness:
  "length [0x80, 0x2E :: byte] < HEADER_SIZE \<and>
   load_streaming demo_env [0x80, 0x2E] () True DEFAULT_CHUNK_SIZE = ([], Inr [])"
proof -
  have a: "length [0x80, 0x2E :: byte] < HEADER_SIZE"
    by (simp add: HEADER_SIZE_def)
  show ?thesis
    using short_stream_is_foreign [OF a, of demo_env "()" True DEFAULT_CHUNK_SIZE] a
    by (simp add: demo_env_sel demo_pickle_loads_def)
qed

text \<open>
  C8. Chunk-size independence at the chunk size 0, for the object
  \<^verbatim>\<open>b"\x01\x02\x03\x04\x05"\<close> under the defaults of the instance. Written and read in
  chunks of 1024 bytes, the object comes back. Written with \<^verbatim>\<open>chunk_size = 0\<close>, the
  first \<^verbatim>\<open>read(0)\<close> returns nothing, no chunk reaches the compressor, and
  \<^verbatim>\<open>dump_streaming\<close> returns normally having written the header and the frame of the
  empty input; \<^verbatim>\<open>load_streaming\<close> then raises on the empty pickle. Read with
  \<^verbatim>\<open>chunk_size = 0\<close>, a container that was written in chunks of 1024 bytes is not
  read at all, and \<^verbatim>\<open>load_streaming\<close> raises what \<^verbatim>\<open>finish\<close> raises.
\<close>

theorem chunk_size_zero_breaks_round_trip:
  "load_streaming demo_env
     (fst (dump_streaming demo_env demo_config [1, 2, 3, 4, 5] [] None () None None 1024))
     () True 1024 = ([], Inr [1, 2, 3, 4, 5]) \<and>
   dump_streaming demo_env demo_config [1, 2, 3, 4, 5] [] None () None None 0
     = ([0x5A, 0x50, 0x4B, 0x4C, 1, 1, 3, 0, 0xFD, 3], Inr ()) \<and>
   load_streaming demo_env
     (fst (dump_streaming demo_env demo_config [1, 2, 3, 4, 5] [] None () None None 0))
     () True 1024 = ([], Inl (PickleError ''Ran out of input'')) \<and>
   load_streaming demo_env
     (fst (dump_streaming demo_env demo_config [1, 2, 3, 4, 5] [] None () None None 1024))
     () True 0 = ([], Inl (CodecError ''truncated frame''))"
proof -
  have h: "header_ok demo_env ''zstd'' 3 [0x5A, 0x50, 0x4B, 0x4C, 1, 1, 3, 0]"
    using demo_header_zstd [of 3] by simp
  have n: "positive_size 1024"
    by (simp add: positive_size_def)
  have d: "stream_decompress demo_env ''zstd'' (chunks_of 1024 (demo_frame 3 data))
             = Inr data" for data
    using demo_decodes [of 3 data] chunking_chunks_of [of 1024 "demo_frame 3 data"]
    by (simp add: decodes_def)
  have a: "load_streaming demo_env ([0x5A, 0x50, 0x4B, 0x4C, 1, 1, 3, 0] @ demo_frame 3 data)
             () True 1024 = ([], pickle_loads demo_env data ())" for data
    by (rule load_streaming_container [OF h n]) (simp add: d)
  have z: "load_streaming demo_env
             ([0x5A, 0x50, 0x4B, 0x4C, 1, 1, 3, 0] @ demo_frame 3 [0x80, 1, 2, 3, 4, 5, 0x2E])
             () True 0 = ([], Inl (CodecError ''truncated frame''))"
    by (simp add: load_streaming_def load_streaming_try_def file_read_def
                  decompress_chunks_zero demo_defs)
  from a [of "[0x80, 1, 2, 3, 4, 5, 0x2E]"] a [of "[]"] z show ?thesis
    by (simp add: demo_dump_streaming_default [OF n] demo_dump_streaming_default_zero
                  demo_env_sel demo_pickle_loads_def demo_frame_def)
qed

text \<open>
  C9. For every argument that is neither a \<^verbatim>\<open>bytes\<close> nor a \<^verbatim>\<open>bytearray\<close> object,
  \<^verbatim>\<open>loads\<close> raises a \<^verbatim>\<open>TypeError\<close> and issues no warning, whatever the collaborators
  are and whatever the flag \<^verbatim>\<open>strict\<close> is: the result mentions no field of \<open>env\<close>, so
  the header is not inspected and nothing is decompressed or unpickled.
\<close>

theorem loads_rejects_non_bytes:
  "loads env (NotBytes type_name) kw strict =
     ([], Inl (TypeError (''A bytes-like object is required, not '' @
                          [CHR 0x27] @ type_name @ [CHR 0x27])))"
  by (simp add: loads_def)

text \<open>
  C10. \<^verbatim>\<open>dump\<close> appends to the stream exactly the bytes that \<^verbatim>\<open>dumps\<close> returns for the
  same arguments and returns normally; when \<^verbatim>\<open>dumps\<close> raises, \<^verbatim>\<open>dump\<close> raises the same
  exception and writes nothing.
\<close>

theorem dump_writes_dumps:
  "dump env config obj out protocol kw algorithm level =
     (case dumps env config obj protocol kw algorithm level of
        Inl e \<Rightarrow> (out, Inl e)
      | Inr data \<Rightarrow> (out @ data, Inr ()))"
  by (simp add: dump_def file_write_def split: sum.splits)

end
